theory Spec2Isabelle
  imports Main "HOL-Library.Word"
begin

unbundle bit_operations_syntax

section \<open>Boot service of the Hart Software Services: data model\<close>

text \<open>
  The model follows \<^verbatim>\<open>services/boot/hss_boot_service.c\<close>. The monitor hart (E51) runs one
  boot state machine per application hart (U54_1 .. U54_4). Everything the C code does
  to the outside (copies into target memory, IPI transport calls, domain registry calls,
  register writes, log lines) is recorded as an event, in program order; everything it
  asks of the outside (permission oracle, clock, triggers, IPI transport answers) is read
  from an environment record that describes the outside at the moment of the call.

  Hart ids are the values of \<^verbatim>\<open>enum HSSHartId\<close>: 0 is the E51, 1..4 are the U54s and 5 is
  \<^verbatim>\<open>HSS_HART_NUM_PEERS\<close>. C arrays are functions from the index. Addresses are natural
  numbers below \<open>2 ^ 64\<close> and the address arithmetic of the copy wraps there, as
  \<^verbatim>\<open>uintptr_t\<close> does. Sizes, counters and clock ticks are natural numbers (no chunk or
  time considered here comes near the 64-bit wrap-around); bit masks and flag bytes are
  machine words.
\<close>

type_synonym u8 = "8 word"
type_synonym u32 = "32 word"

text \<open>
  Modelled from the spec: \<^verbatim>\<open>enum HSSHartId\<close> (its header is not part of the sources). The
  spec numbers the four application harts 1 to 4 (index 0 of \<^verbatim>\<open>bootComplete\<close> is unused);
  the file indexes \<^verbatim>\<open>hart[target-1]\<close> and gives \<^verbatim>\<open>pmpSetupFlag[HSS_HART_NUM_PEERS]\<close> five
  initialisers.
\<close>

definition HSS_HART_U54_1 :: nat where "HSS_HART_U54_1 = 1"
definition HSS_HART_U54_2 :: nat where "HSS_HART_U54_2 = 2"
definition HSS_HART_U54_3 :: nat where "HSS_HART_U54_3 = 3"
definition HSS_HART_U54_4 :: nat where "HSS_HART_U54_4 = 4"
definition HSS_HART_NUM_PEERS :: nat where "HSS_HART_NUM_PEERS = 5"

datatype BootStatesEnum =
    BOOT_INITIALIZATION
  | BOOT_SETUP_PMP
  | BOOT_SETUP_PMP_COMPLETE
  | BOOT_ZERO_INIT_CHUNKS
  | BOOT_DOWNLOAD_CHUNKS
  | BOOT_OPENSBI_INIT
  | BOOT_WAIT
  | BOOT_COMPLETE
  | BOOT_IDLE
  | BOOT_ERROR

datatype IPIStatusCode = IPI_FAIL | IPI_SUCCESS

datatype IPI_MSG = IPI_MSG_PMP_SETUP | IPI_MSG_OPENSBI_INIT | IPI_MSG_GOTO | IPI_MSG_BOOT_REQUEST

datatype HSS_Event = EVENT_BOOT_COMPLETE | EVENT_POST_BOOT

datatype HSS_U54_State = HSS_State_Booting | HSS_State_Idle

datatype log_level = LOG_ERROR | LOG_WARN | LOG_NORMAL | LOG_STATUS

text \<open>
  The calls the boot service makes into its collaborators. \<open>Ev_memcpy_via_pdma dst src n\<close>
  has \<open>src\<close> as an offset from the image base (the C code adds \<^verbatim>\<open>pBootImage\<close> to it), taken
  modulo \<open>2 ^ 64\<close> like \<open>dst\<close>;
  \<open>Ev_memset dst n\<close> writes \<open>n\<close> zero bytes at \<open>dst\<close>.
\<close>

datatype event =
    Ev_memcpy_via_pdma nat nat nat
  | Ev_memset nat nat
  | Ev_IPI_MessageAlloc u32
  | Ev_IPI_MessageDeliver u32 nat IPI_MSG u8 nat nat
  | Ev_IPI_MessageFree u32
  | Ev_IPI_Send nat IPI_MSG u8 nat
  | Ev_IPI_ConsumeIntent nat IPI_MSG
  | Ev_mpfs_domains_register_hart nat nat
  | Ev_mpfs_domains_deregister_hart nat
  | Ev_mpfs_domains_register_boot_hart string u32 nat u8 nat nat u8 u8
  | Ev_BOOT_FAIL_CR nat
  | Ev_MSS_STATUS_set u32
  | Ev_HSS_U54_SetState HSS_U54_State
  | Ev_HSS_U54_SetState_Ex nat HSS_U54_State
  | Ev_HSS_Trigger_Notify HSS_Event
  | Ev_HSS_PerfCtr_Allocate
  | Ev_HSS_PerfCtr_Lap int
  | Ev_HSS_GPIO_UI_ReportImageGoodCRC
  | Ev_init_pmp nat
  | Ev_mss_set_apb_bus_cr
  | Ev_jump_to_entry nat
  | Ev_log log_level string

datatype fault = AssertionFailed | NullPointer | ReadPastTable

subsection \<open>The boot image\<close>

text \<open>
  \<^verbatim>\<open>struct HSS_BootImage\<close>, its per-hart descriptors and the two chunk tables. The tables
  are the arrays found at \<^verbatim>\<open>pBootImage + chunkTableOffset\<close> and
  \<^verbatim>\<open>pBootImage + ziChunkTableOffset\<close>; a pointer into a table is the index of its element,
  \<open>None\<close> is \<^verbatim>\<open>NULL\<close>. A read through \<^verbatim>\<open>NULL\<close> or past the last element of the table
  as given is a fault of the model (the C code would read whatever memory follows).
\<close>

record HSS_BootHart =
  entryPoint :: nat
  privMode :: u8
  flags :: u8
  numChunks :: nat
  firstChunk :: nat
  lastChunk :: nat
  name :: string

record HSS_BootChunkDesc =
  owner :: u32
  loadAddr :: nat
  execAddr :: nat
  chunk_size :: nat

record HSS_BootZIChunkDesc =
  zi_owner :: u32
  zi_execAddr :: nat
  zi_size :: nat

record HSS_BootImage =
  magic :: u32
  version :: u32
  headerCrc :: u32
  signature :: "u8 list"
  set_name :: string
  chunkTableOffset :: nat
  ziChunkTableOffset :: nat
  hart :: "nat \<Rightarrow> HSS_BootHart"
  chunkTable :: "HSS_BootChunkDesc list"
  ziChunkTable :: "HSS_BootZIChunkDesc list"

definition table_read :: "'a list \<Rightarrow> nat option \<Rightarrow> fault + 'a" where
  "table_read tbl p =
     (case p of
        None \<Rightarrow> Inl NullPointer
      | Some i \<Rightarrow> if i < length tbl then Inr (tbl ! i) else Inl ReadPastTable)"

subsection \<open>Constants, build switches and collaborators that are not in this file\<close>

text \<open>
  The headers that define these constants and the \<^verbatim>\<open>CONFIG_\<close> switches are not part of
  the sources, so every handler takes them as a parameter \<open>K\<close>. \<open>header_bytes\<close> is the
  object representation of a \<^verbatim>\<open>struct HSS_BootImage\<close> (its memory layout),
  \<open>CRC32_calculate\<close> the CRC routine applied to the bytes it is given,
  \<open>HSSHartBitmask_u54_all\<close> the value of \<^verbatim>\<open>union HSSHartBitmask\<close> with the four U54
  bit-fields set, \<open>dtb_start\<close> the address of the built-in device tree. The two tests
  of \<^verbatim>\<open>CONFIG_SERVICE_BOOT_CUSTOM_FLOW\<close> (one with \<^verbatim>\<open>defined\<close>, one with \<^verbatim>\<open>IS_ENABLED\<close>)
  read the same switch.
\<close>

record platform =
  IPI_MAX_NUM_OUTSTANDING_COMPLETES :: u32
  ONE_SEC :: nat
  HSS_HART_ALL :: nat
  BOOT_FLAG_SKIP_OPENSBI :: u8
  BOOT_FLAG_SKIP_AUTOBOOT :: u8
  BOOT_FLAG_ALLOW_COLD_REBOOT :: u8
  BOOT_FLAG_ALLOW_WARM_REBOOT :: u8
  BOOT_FLAG_ANCILLIARY_DATA :: u32
  mHSS_BOOT_MAGIC :: u32
  mHSS_COMPRESSED_MAGIC :: u32
  PRV_M :: u8
  dtb_start :: nat
  PERF_CTR_UNINITIALIZED :: int
  HSSHartBitmask_u54_all :: u32
  sizeof_HSS_BootImage_v0 :: nat
  sizeof_HSS_BootImage :: nat
  header_bytes :: "HSS_BootImage \<Rightarrow> u8 list"
  CRC32_calculate :: "u8 list \<Rightarrow> u32"
  HSS_Boot_Secure_CheckCodeSigning :: "HSS_BootImage \<Rightarrow> bool"
  CONFIG_SERVICE_BOOT :: bool
  CONFIG_CRYPTO_SIGNING :: bool
  CONFIG_SERVICE_BOOT_CUSTOM_FLOW :: bool
  CONFIG_PROVIDE_DTB :: bool
  CONFIG_SERVICE_GPIO_UI :: bool
  CONFIG_DEBUG_CHUNK_DOWNLOADS :: bool

definition BOOT_SETUP_PMP_COMPLETE_TIMEOUT :: "platform \<Rightarrow> nat" where
  "BOOT_SETUP_PMP_COMPLETE_TIMEOUT K = ONE_SEC K * 1"

definition BOOT_WAIT_TIMEOUT :: "platform \<Rightarrow> nat" where
  "BOOT_WAIT_TIMEOUT K = ONE_SEC K * 5"

definition BOOT_SUB_CHUNK_SIZE :: nat where
  "BOOT_SUB_CHUNK_SIZE = 256"

text \<open>
  What the outside answers during one call of a handler: the clock, the two triggers the
  boot service waits for, the permission oracle, the DDR address test and the IPI
  transport. \<open>IPI_MessageAlloc\<close> is the slot index the transport hands out, \<open>None\<close> when
  it has none left (no handler allocates more than one slot per call).
\<close>

record env =
  HSS_GetTime :: nat
  EVENT_DDR_TRAINED :: bool
  EVENT_STARTUP_COMPLETE :: bool
  HSS_PMP_CheckWrite :: "nat \<Rightarrow> nat \<Rightarrow> nat \<Rightarrow> bool"
  HSS_DDR_IsAddrInDDR :: "nat \<Rightarrow> bool"
  IPI_MessageAlloc :: "u32 option"
  IPI_MessageDeliver :: "u32 \<Rightarrow> nat \<Rightarrow> IPI_MSG \<Rightarrow> bool"
  IPI_MessageCheckIfComplete :: "u32 \<Rightarrow> bool"
  HSS_PerfCtr_Allocate :: int

text \<open>
  Modelled from the spec: \<^verbatim>\<open>HSS_Timer_IsElapsed\<close> (the clock module is not part of the
  sources). The spec calls it a wall-clock timeout check: it holds once more than the
  given duration has passed on the clock since the start tick. Both clock reads of one
  handler call see the same tick.
\<close>

definition HSS_Timer_IsElapsed :: "env \<Rightarrow> nat \<Rightarrow> nat \<Rightarrow> bool" where
  "HSS_Timer_IsElapsed e startTick durationInTicks = (startTick + durationInTicks < HSS_GetTime e)"

subsection \<open>State machines\<close>

record HSS_Boot_LocalData =
  target :: nat
  pChunk :: "nat option"
  pZiChunk :: "nat option"
  chunkCount :: nat
  ziChunkCount :: nat
  subChunkOffset :: nat
  msgIndex :: u32
  hartMask :: u32
  perfCtr :: int
  iterator :: nat
  ancilliaryData :: nat
  msgIndexAux :: "nat \<Rightarrow> u32"

text \<open>
  \<^verbatim>\<open>struct StateMachine\<close> with the fields the handlers use; the other fields (previous
  state, names, the descriptor table) belong to the scheduler.
\<close>

record StateMachine =
  state :: BootStatesEnum
  startTime :: nat
  executionCount :: nat
  pInstanceData :: HSS_Boot_LocalData

text \<open>The \<^verbatim>\<open>hartId\<close> column of the \<^verbatim>\<open>bootMachine\<close> table, in table order.\<close>

definition bootMachine_hartId :: "nat list" where
  "bootMachine_hartId = [HSS_HART_U54_1, HSS_HART_U54_2, HSS_HART_U54_3, HSS_HART_U54_4]"

text \<open>
  The static initialisers: \<open>localData K i\<close> is \<^verbatim>\<open>localData[i]\<close> and \<open>boot_service K i\<close> is
  the machine \<^verbatim>\<open>bootMachine[i].pMachine\<close>, as they are before the first call.
\<close>

definition localData :: "platform \<Rightarrow> nat \<Rightarrow> HSS_Boot_LocalData" where
  "localData K i =
     \<lparr>target = bootMachine_hartId ! i, pChunk = None, pZiChunk = None, chunkCount = 0,
      ziChunkCount = 0, subChunkOffset = 0, msgIndex = IPI_MAX_NUM_OUTSTANDING_COMPLETES K,
      hartMask = 0, perfCtr = PERF_CTR_UNINITIALIZED K, iterator = 0, ancilliaryData = 0,
      msgIndexAux = (\<lambda>_. 0)\<rparr>"

definition boot_service :: "platform \<Rightarrow> nat \<Rightarrow> StateMachine" where
  "boot_service K i =
     \<lparr>state = BOOT_IDLE, startTime = 0, executionCount = 0, pInstanceData = localData K i\<rparr>"

section \<open>Helper functions\<close>

definition boot_do_download_chunk :: "HSS_BootChunkDesc \<Rightarrow> nat \<Rightarrow> nat \<Rightarrow> fault + event list" where
  "boot_do_download_chunk c subChunkOffs subChunkSize =
     (if chunk_size c = 0 then Inl AssertionFailed
      else Inr [Ev_memcpy_via_pdma ((execAddr c + subChunkOffs) mod 2 ^ 64)
                  ((loadAddr c + subChunkOffs) mod 2 ^ 64) subChunkSize])"

definition boot_do_zero_init_chunk :: "HSS_BootZIChunkDesc \<Rightarrow> event list" where
  "boot_do_zero_init_chunk z = [Ev_memset (zi_execAddr z) (zi_size z)]"

definition free_msg_index ::
  "platform \<Rightarrow> HSS_Boot_LocalData \<Rightarrow> event list \<Rightarrow> HSS_Boot_LocalData \<times> event list" where
  "free_msg_index K d tr =
     (if msgIndex d \<noteq> IPI_MAX_NUM_OUTSTANDING_COMPLETES K
      then (d\<lparr>msgIndex := IPI_MAX_NUM_OUTSTANDING_COMPLETES K\<rparr>, tr @ [Ev_IPI_MessageFree (msgIndex d)])
      else (d, tr))"

definition free_msg_index_aux ::
  "platform \<Rightarrow> nat \<Rightarrow> HSS_Boot_LocalData \<Rightarrow> event list \<Rightarrow> HSS_Boot_LocalData \<times> event list" where
  "free_msg_index_aux K peer d tr =
     (if msgIndexAux d (peer - 1) \<noteq> IPI_MAX_NUM_OUTSTANDING_COMPLETES K
      then (d\<lparr>msgIndexAux := (msgIndexAux d)(peer - 1 := IPI_MAX_NUM_OUTSTANDING_COMPLETES K)\<rparr>,
            tr @ [Ev_IPI_MessageFree (msgIndexAux d (peer - 1))])
      else (d, tr))"

text \<open>
  \<^verbatim>\<open>check_for_ipi_acks\<close>. \<open>ack_poll_aux\<close> is the body of its loop over the \<^verbatim>\<open>bootMachine\<close>
  table for one peer; the loop variable \<^verbatim>\<open>result\<close> is assigned (not and-ed) there, as in
  the C code.
\<close>

definition ack_poll_aux ::
  "platform \<Rightarrow> env \<Rightarrow> nat \<Rightarrow> HSS_Boot_LocalData \<times> event list \<times> bool
     \<Rightarrow> HSS_Boot_LocalData \<times> event list \<times> bool" where
  "ack_poll_aux K e peer s =
     (case s of (d, tr, result) \<Rightarrow>
        if msgIndexAux d (peer - 1) \<noteq> IPI_MAX_NUM_OUTSTANDING_COMPLETES K
        then (if IPI_MessageCheckIfComplete e (msgIndexAux d (peer - 1))
              then (case free_msg_index_aux K peer d tr of (d', tr') \<Rightarrow> (d', tr', True))
              else (d, tr, False))
        else (d, tr, result))"

definition check_for_ipi_acks ::
  "platform \<Rightarrow> env \<Rightarrow> HSS_Boot_LocalData \<Rightarrow> HSS_Boot_LocalData \<times> event list \<times> bool" where
  "check_for_ipi_acks K e d =
     (case fold (ack_poll_aux K e) bootMachine_hartId (d, [], True) of (d1, tr1, r1) \<Rightarrow>
        if msgIndex d1 \<noteq> IPI_MAX_NUM_OUTSTANDING_COMPLETES K
        then (if r1 \<and> IPI_MessageCheckIfComplete e (msgIndex d1)
              then (case free_msg_index K d1 tr1 of (d2, tr2) \<Rightarrow> (d2, tr2, True))
              else (d1, tr1, False))
        else (d1, tr1, r1))"

text \<open>The loop that frees every auxiliary slot, shared by the two timeout branches.\<close>

definition free_all_aux ::
  "platform \<Rightarrow> HSS_Boot_LocalData \<Rightarrow> event list \<Rightarrow> HSS_Boot_LocalData \<times> event list" where
  "free_all_aux K d tr =
     fold (\<lambda>peer s. case s of (d', tr') \<Rightarrow> free_msg_index_aux K peer d' tr') bootMachine_hartId (d, tr)"

section \<open>Handlers of the boot state machine\<close>

text \<open>
  A handler takes the machine and returns the machine after the call together with the
  calls it made; a handler that can stop on an assertion or read a chunk table returns a
  fault instead. \<open>img\<close> is the image \<^verbatim>\<open>pBootImage\<close> points to, for the handlers that
  dereference the pointer without a test.
\<close>

definition boot_init_handler ::
  "platform \<Rightarrow> env \<Rightarrow> HSS_BootImage option \<Rightarrow> StateMachine \<Rightarrow> StateMachine \<times> event list" where
  "boot_init_handler K e pBootImage m =
     (if EVENT_DDR_TRAINED e \<and> EVENT_STARTUP_COMPLETE e then
        (case pBootImage of
           Some img \<Rightarrow>
             (m\<lparr>state := BOOT_SETUP_PMP, startTime := HSS_GetTime e,
                pInstanceData := (pInstanceData m)\<lparr>perfCtr := HSS_PerfCtr_Allocate e\<rparr>\<rparr>,
              [Ev_BOOT_FAIL_CR 0]
              @ (if flags (hart img (target (pInstanceData m) - 1)) AND BOOT_FLAG_SKIP_OPENSBI K \<noteq> 0
                 then [Ev_log LOG_STATUS ''BOOT_FLAG_SKIP_OPENSBI found''] else [])
              @ [Ev_HSS_PerfCtr_Allocate])
         | None \<Rightarrow>
             (m\<lparr>state := BOOT_ERROR\<rparr>, [Ev_log LOG_ERROR ''No Boot Image registered'']))
      else (m, []))"

text \<open>
  \<^verbatim>\<open>register_harts\<close>: \<open>primary_boot_hart\<close> is the C local of that name;
  \<open>register_harts_peer\<close> is the body of the loop over the \<^verbatim>\<open>bootMachine\<close> table.
\<close>

definition primary_boot_hart :: "HSS_BootImage \<Rightarrow> nat \<Rightarrow> bool" where
  "primary_boot_hart img t =
     (numChunks (hart img (t - 1)) \<noteq> 0 \<and> entryPoint (hart img (t - 1)) \<noteq> 0)"

definition register_harts_peer ::
  "platform \<Rightarrow> HSS_BootImage \<Rightarrow> nat \<Rightarrow> nat \<Rightarrow> HSS_Boot_LocalData \<times> event list
     \<Rightarrow> HSS_Boot_LocalData \<times> event list" where
  "register_harts_peer K img t peer s =
     (case s of (d, tr) \<Rightarrow>
        (let d1 = d\<lparr>msgIndexAux := (msgIndexAux d)(peer - 1 := IPI_MAX_NUM_OUTSTANDING_COMPLETES K)\<rparr> in
         if primary_boot_hart img t then
           (if flags (hart img (peer - 1)) AND BOOT_FLAG_SKIP_OPENSBI K \<noteq> 0
            then (d1, tr @ [Ev_mpfs_domains_deregister_hart peer])
            else if peer = t \<or> entryPoint (hart img (peer - 1)) = entryPoint (hart img (t - 1))
            then (d1\<lparr>hartMask := hartMask d1 OR push_bit peer 1\<rparr>,
                  tr @ [Ev_mpfs_domains_register_hart peer t])
            else (d1, tr))
         else (d1, tr)))"

definition register_harts ::
  "platform \<Rightarrow> HSS_BootImage \<Rightarrow> StateMachine \<Rightarrow> StateMachine \<times> event list" where
  "register_harts K img m =
     (let t = target (pInstanceData m);
          d0 = (pInstanceData m)\<lparr>msgIndex := IPI_MAX_NUM_OUTSTANDING_COMPLETES K\<rparr>
      in case fold (register_harts_peer K img t) bootMachine_hartId (d0, []) of (d, tr) \<Rightarrow>
        (m\<lparr>pInstanceData := d\<rparr>,
         tr @
         (if primary_boot_hart img t then
            (if flags (hart img (t - 1)) AND BOOT_FLAG_SKIP_OPENSBI K \<noteq> 0 then []
             else [Ev_log LOG_NORMAL ''Registering domain'']
                  @ (if ancilliaryData d = 0 \<and> CONFIG_PROVIDE_DTB K
                     then [Ev_log LOG_WARN ''Using built-in DTB''] else [])
                  @ [Ev_mpfs_domains_register_boot_hart (name (hart img (t - 1))) (hartMask d) t
                     (privMode (hart img (t - 1))) (entryPoint (hart img (t - 1)))
                     (if ancilliaryData d \<noteq> 0 then ancilliaryData d
                      else if CONFIG_PROVIDE_DTB K then dtb_start K else 0)
                     (flags (hart img (t - 1)) AND BOOT_FLAG_ALLOW_COLD_REBOOT K)
                     (flags (hart img (t - 1)) AND BOOT_FLAG_ALLOW_WARM_REBOOT K)])
          else [])))"

definition boot_setup_pmp_onEntry ::
  "platform \<Rightarrow> HSS_BootImage \<Rightarrow> StateMachine \<Rightarrow> StateMachine \<times> event list" where
  "boot_setup_pmp_onEntry K img m = register_harts K img m"

text \<open>
  \<^verbatim>\<open>HSS_Boot_PMPSetupRequest\<close>: the result is the C return value, the index written through
  \<^verbatim>\<open>indexOut\<close> and the calls made.
\<close>

definition HSS_Boot_PMPSetupRequest ::
  "platform \<Rightarrow> env \<Rightarrow> nat \<Rightarrow> fault + (bool \<times> u32 \<times> event list)" where
  "HSS_Boot_PMPSetupRequest K e t =
     (if t = HSS_HART_ALL K then Inl AssertionFailed
      else case IPI_MessageAlloc e of
        None \<Rightarrow> Inl AssertionFailed
      | Some idx \<Rightarrow>
          (if IPI_MessageDeliver e idx t IPI_MSG_PMP_SETUP
           then Inr (True, idx, [Ev_IPI_MessageAlloc idx, Ev_IPI_MessageDeliver idx t IPI_MSG_PMP_SETUP 0 0 0])
           else Inr (False, idx,
                     [Ev_IPI_MessageAlloc idx, Ev_IPI_MessageDeliver idx t IPI_MSG_PMP_SETUP 0 0 0,
                      Ev_log LOG_NORMAL ''failed to send message, so freeing'',
                      Ev_IPI_MessageFree idx])))"

definition boot_setup_pmp_handler ::
  "platform \<Rightarrow> env \<Rightarrow> StateMachine \<Rightarrow> fault + (StateMachine \<times> event list)" where
  "boot_setup_pmp_handler K e m =
     (if msgIndex (pInstanceData m) = IPI_MAX_NUM_OUTSTANDING_COMPLETES K then
        (case HSS_Boot_PMPSetupRequest K e (target (pInstanceData m)) of
           Inl f \<Rightarrow> Inl f
         | Inr (result, idx, tr) \<Rightarrow>
             Inr (m\<lparr>state := (if result then BOOT_SETUP_PMP_COMPLETE else state m),
                    pInstanceData := (pInstanceData m)\<lparr>msgIndex := idx\<rparr>\<rparr>, tr))
      else Inr (m\<lparr>state := BOOT_SETUP_PMP_COMPLETE\<rparr>, []))"

definition boot_setup_pmp_complete_handler ::
  "platform \<Rightarrow> env \<Rightarrow> HSS_BootImage \<Rightarrow> StateMachine \<Rightarrow> StateMachine \<times> event list" where
  "boot_setup_pmp_complete_handler K e img m =
     (if HSS_Timer_IsElapsed e (startTime m) (BOOT_SETUP_PMP_COMPLETE_TIMEOUT K) then
        (case free_all_aux K (pInstanceData m) [Ev_log LOG_ERROR ''Timeout''] of (d1, tr1) \<Rightarrow>
           case free_msg_index K d1 tr1 of (d2, tr2) \<Rightarrow>
             (m\<lparr>state := BOOT_ERROR, pInstanceData := d2\<rparr>, tr2))
      else
        (case check_for_ipi_acks K e (pInstanceData m) of (d1, tr1, r) \<Rightarrow>
           if r then
             (m\<lparr>state := (if flags (hart img (target (pInstanceData m) - 1)) AND BOOT_FLAG_SKIP_AUTOBOOT K \<noteq> 0
                           then BOOT_COMPLETE else BOOT_ZERO_INIT_CHUNKS),
                pInstanceData := d1\<rparr>, tr1)
           else (m\<lparr>pInstanceData := d1\<rparr>, tr1)))"

definition boot_zero_init_chunks_onEntry :: "StateMachine \<Rightarrow> StateMachine" where
  "boot_zero_init_chunks_onEntry m = m\<lparr>pInstanceData := (pInstanceData m)\<lparr>pZiChunk := Some 0\<rparr>\<rparr>"

definition boot_zero_init_chunks_handler ::
  "platform \<Rightarrow> env \<Rightarrow> HSS_BootImage \<Rightarrow> StateMachine \<Rightarrow> fault + (StateMachine \<times> event list)" where
  "boot_zero_init_chunks_handler K e img m =
     (case table_read (ziChunkTable img) (pZiChunk (pInstanceData m)) of
        Inl f \<Rightarrow> Inl f
      | Inr z \<Rightarrow>
          if zi_size z \<noteq> 0 then
            (if of_nat (target (pInstanceData m)) = zi_owner z then
               (if HSS_DDR_IsAddrInDDR e (zi_execAddr z) \<and> \<not> EVENT_DDR_TRAINED e
                then Inr (m, [])
                else Inr (m\<lparr>pInstanceData :=
                                (pInstanceData m)\<lparr>pZiChunk := map_option Suc (pZiChunk (pInstanceData m))\<rparr>\<rparr>,
                          (if CONFIG_DEBUG_CHUNK_DOWNLOADS K then [Ev_log LOG_NORMAL ''ziChunk''] else [])
                          @ boot_do_zero_init_chunk z))
             else Inr (m\<lparr>pInstanceData :=
                             (pInstanceData m)\<lparr>pZiChunk := map_option Suc (pZiChunk (pInstanceData m))\<rparr>\<rparr>, []))
          else Inr (m\<lparr>state := BOOT_DOWNLOAD_CHUNKS\<rparr>, []))"

definition boot_download_chunks_onEntry ::
  "platform \<Rightarrow> HSS_BootImage \<Rightarrow> StateMachine \<Rightarrow> StateMachine \<times> event list" where
  "boot_download_chunks_onEntry K img m =
     (if numChunks (hart img (target (pInstanceData m) - 1)) \<noteq> 0 then
        (m\<lparr>pInstanceData := (pInstanceData m)
              \<lparr>pChunk := Some (0 + firstChunk (hart img (target (pInstanceData m) - 1))),
               chunkCount := 0, subChunkOffset := 0\<rparr>\<rparr>,
         [Ev_log LOG_NORMAL ''Processing boot image'']
         @ (if CONFIG_DEBUG_CHUNK_DOWNLOADS K
            then [Ev_log LOG_NORMAL ''firstChunk'', Ev_log LOG_NORMAL ''lastChunk'', Ev_log LOG_NORMAL ''numChunks'']
            else []))
      else (m, []))"

text \<open>
  \<^verbatim>\<open>boot_download_chunks_handler\<close>. \<open>download_owned_chunk\<close> is the branch taken for a chunk
  that belongs to the target and passes the permission check, \<open>download_skip_chunk\<close> the
  other branch; the handler itself holds the tests in the order of the C code (the chunk
  is read only when \<^verbatim>\<open>chunkCount <= lastChunk\<close>).
\<close>

definition download_owned_chunk ::
  "platform \<Rightarrow> HSS_BootChunkDesc \<Rightarrow> StateMachine \<Rightarrow> fault + (StateMachine \<times> event list)" where
  "download_owned_chunk K c m =
     (let d = pInstanceData m in
      case boot_do_download_chunk c (subChunkOffset d) BOOT_SUB_CHUNK_SIZE of
        Inl f \<Rightarrow> Inl f
      | Inr copy \<Rightarrow>
          (let found = (owner c AND BOOT_FLAG_ANCILLIARY_DATA K \<noteq> 0 \<and> ancilliaryData d = 0);
               d1 = (if found then d\<lparr>ancilliaryData := execAddr c\<rparr> else d);
               d2 = d1\<lparr>subChunkOffset := subChunkOffset d1 + BOOT_SUB_CHUNK_SIZE\<rparr>;
               finished = (chunk_size c < subChunkOffset d2);
               d3 = (if finished
                     then d2\<lparr>subChunkOffset := 0, chunkCount := chunkCount d2 + 1,
                             pChunk := map_option Suc (pChunk d2)\<rparr>
                     else d2)
           in Inr (m\<lparr>pInstanceData := d3\<rparr>,
                   (if CONFIG_DEBUG_CHUNK_DOWNLOADS K \<and> subChunkOffset d = 0
                    then [Ev_log LOG_NORMAL ''chunk''] else [])
                   @ copy
                   @ (if found then [Ev_log LOG_NORMAL ''ancilliary data found''] else [])
                   @ (if finished \<and> CONFIG_DEBUG_CHUNK_DOWNLOADS K
                      then [Ev_log LOG_NORMAL ''sub-chunk finished''] else []))))"

definition download_skip_chunk ::
  "HSS_BootChunkDesc \<Rightarrow> StateMachine \<Rightarrow> StateMachine \<times> event list" where
  "download_skip_chunk c m =
     (m\<lparr>pInstanceData := (pInstanceData m)\<lparr>pChunk := map_option Suc (pChunk (pInstanceData m))\<rparr>\<rparr>,
      (if owner c = of_nat (target (pInstanceData m))
       then [Ev_log LOG_ERROR ''Skipping chunk due to invalid permissions'']
       else [Ev_log LOG_WARN ''Skipping chunk due to ownership'']))"

definition boot_download_chunks_handler ::
  "platform \<Rightarrow> env \<Rightarrow> HSS_BootImage \<Rightarrow> StateMachine \<Rightarrow> fault + (StateMachine \<times> event list)" where
  "boot_download_chunks_handler K e img m =
     (let t = target (pInstanceData m) in
      if numChunks (hart img (t - 1)) \<noteq> 0 then
        (if chunkCount (pInstanceData m) \<le> lastChunk (hart img (t - 1)) then
           (case table_read (chunkTable img) (pChunk (pInstanceData m)) of
              Inl f \<Rightarrow> Inl f
            | Inr c \<Rightarrow>
                if chunk_size c \<noteq> 0 then
                  (if owner c AND NOT (BOOT_FLAG_ANCILLIARY_DATA K) = of_nat t
                      \<and> HSS_PMP_CheckWrite e t (execAddr c) (chunk_size c)
                   then download_owned_chunk K c m
                   else Inr (download_skip_chunk c m))
                else Inr (m\<lparr>state := BOOT_OPENSBI_INIT\<rparr>, []))
         else Inr (m\<lparr>state := BOOT_OPENSBI_INIT\<rparr>, []))
      else Inr (m\<lparr>state := BOOT_COMPLETE\<rparr>, []))"

definition boot_download_chunks_onExit ::
  "platform \<Rightarrow> HSS_BootImage \<Rightarrow> StateMachine \<Rightarrow> StateMachine \<times> event list" where
  "boot_download_chunks_onExit K img m = register_harts K img m"

definition boot_opensbi_init_onEntry :: "HSS_BootImage \<Rightarrow> StateMachine \<Rightarrow> StateMachine" where
  "boot_opensbi_init_onEntry img m =
     (if entryPoint (hart img (target (pInstanceData m) - 1)) \<noteq> 0
      then m\<lparr>pInstanceData := (pInstanceData m)\<lparr>iterator := 0\<rparr>\<rparr>
      else m)"

text \<open>
  \<^verbatim>\<open>common_boot_message_delivery\<close>: \<open>t\<close> is its second argument, the hart the message goes
  to. Both branches of the C code differ only in the message kind.
\<close>

definition common_boot_message_delivery ::
  "platform \<Rightarrow> env \<Rightarrow> HSS_BootImage \<Rightarrow> nat \<Rightarrow> StateMachine \<Rightarrow> fault + (StateMachine \<times> event list)" where
  "common_boot_message_delivery K e img t m =
     (case IPI_MessageAlloc e of
        None \<Rightarrow> Inl AssertionFailed
      | Some idx \<Rightarrow>
          (let d = (pInstanceData m)\<lparr>msgIndexAux := (msgIndexAux (pInstanceData m))(t - 1 := idx)\<rparr>;
               msg = (if flags (hart img (t - 1)) AND BOOT_FLAG_SKIP_OPENSBI K \<noteq> 0
                      then IPI_MSG_GOTO else IPI_MSG_OPENSBI_INIT);
               tr = [Ev_IPI_MessageAlloc idx,
                     Ev_IPI_MessageDeliver idx t msg (privMode (hart img (t - 1)))
                       (entryPoint (hart img (t - 1))) (ancilliaryData d)]
           in if IPI_MessageDeliver e idx t msg
              then Inr (m\<lparr>pInstanceData := d\<rparr>, tr)
              else Inr (m\<lparr>state := BOOT_ERROR, pInstanceData := d\<rparr>,
                        tr @ [Ev_log LOG_ERROR ''sbi_init failed''])))"

definition boot_opensbi_init_handler ::
  "platform \<Rightarrow> env \<Rightarrow> HSS_BootImage \<Rightarrow> StateMachine \<Rightarrow> fault + (StateMachine \<times> event list)" where
  "boot_opensbi_init_handler K e img m =
     (let t = target (pInstanceData m) in
      if primary_boot_hart img t then
        (if iterator (pInstanceData m) < length bootMachine_hartId then
           (let peer = bootMachine_hartId ! iterator (pInstanceData m) in
            case (if peer = t then Inr (m, [])
                  else if entryPoint (hart img (peer - 1)) = entryPoint (hart img (t - 1))
                  then common_boot_message_delivery K e img peer m
                  else Inr (m, [])) of
              Inl f \<Rightarrow> Inl f
            | Inr (m1, tr) \<Rightarrow>
                Inr (m1\<lparr>pInstanceData := (pInstanceData m1)\<lparr>iterator := iterator (pInstanceData m1) + 1\<rparr>\<rparr>, tr))
         else Inr (m\<lparr>state := BOOT_WAIT\<rparr>, []))
      else Inr (m, []))"

definition boot_opensbi_init_onExit ::
  "platform \<Rightarrow> env \<Rightarrow> HSS_BootImage \<Rightarrow> StateMachine \<Rightarrow> fault + (StateMachine \<times> event list)" where
  "boot_opensbi_init_onExit K e img m =
     (if entryPoint (hart img (target (pInstanceData m) - 1)) \<noteq> 0
      then common_boot_message_delivery K e img (target (pInstanceData m)) m
      else Inr (m, [Ev_log LOG_NORMAL ''skipping goto/sbi_init'']))"

definition boot_wait_onEntry :: "StateMachine \<Rightarrow> StateMachine" where
  "boot_wait_onEntry m = m"

definition boot_wait_handler ::
  "platform \<Rightarrow> env \<Rightarrow> HSS_BootImage \<Rightarrow> StateMachine \<Rightarrow> StateMachine \<times> event list" where
  "boot_wait_handler K e img m =
     (let m1 = m\<lparr>startTime := HSS_GetTime e\<rparr>; t = target (pInstanceData m) in
      if entryPoint (hart img (t - 1)) = 0 then
        (m1\<lparr>state := BOOT_COMPLETE\<rparr>, [Ev_HSS_U54_SetState_Ex t HSS_State_Idle])
      else if HSS_Timer_IsElapsed e (startTime m1) (BOOT_WAIT_TIMEOUT K) then
        (case free_all_aux K (pInstanceData m1) [Ev_log LOG_ERROR ''IPI ACK Timeout''] of (d1, tr1) \<Rightarrow>
           case free_msg_index K d1 tr1 of (d2, tr2) \<Rightarrow>
             (m1\<lparr>state := BOOT_ERROR, pInstanceData := d2\<rparr>, tr2))
      else
        (case check_for_ipi_acks K e (pInstanceData m1) of (d1, tr1, r) \<Rightarrow>
           if r then (m1\<lparr>state := BOOT_COMPLETE, pInstanceData := d1\<rparr>,
                      tr1 @ [Ev_MSS_STATUS_set (push_bit (t - 1) 1)])
           else (m1\<lparr>pInstanceData := d1\<rparr>, tr1)))"

definition boot_error_handler :: "StateMachine \<Rightarrow> StateMachine \<times> event list" where
  "boot_error_handler m =
     (m\<lparr>state := BOOT_COMPLETE\<rparr>,
      [Ev_log LOG_ERROR ''WARNING: Boot Error - transitioning to IDLE'', Ev_BOOT_FAIL_CR 1])"

text \<open>\<^verbatim>\<open>bootComplete\<close> is the array of five atomic counters; the model holds their values.\<close>

definition boot_complete_onEntry :: "(nat \<Rightarrow> nat) \<Rightarrow> StateMachine \<Rightarrow> (nat \<Rightarrow> nat)" where
  "boot_complete_onEntry bootComplete m = bootComplete(target (pInstanceData m) := 1)"

definition boot_complete_handler :: "(nat \<Rightarrow> nat) \<Rightarrow> StateMachine \<Rightarrow> StateMachine \<times> event list" where
  "boot_complete_handler bootComplete m =
     (if bootComplete 1 \<noteq> 0 \<and> bootComplete 2 \<noteq> 0 \<and> bootComplete 3 \<noteq> 0 \<and> bootComplete 4 \<noteq> 0
      then (m\<lparr>state := BOOT_IDLE\<rparr>, [Ev_HSS_Trigger_Notify EVENT_BOOT_COMPLETE])
      else (m, []))"

definition boot_idle_onEntry :: "StateMachine \<Rightarrow> event list" where
  "boot_idle_onEntry m = [Ev_HSS_PerfCtr_Lap (perfCtr (pInstanceData m))]"

definition boot_idle_handler :: "StateMachine \<Rightarrow> event list" where
  "boot_idle_handler m = [Ev_IPI_ConsumeIntent (target (pInstanceData m)) IPI_MSG_BOOT_REQUEST]"

section \<open>Public API\<close>

text \<open>
  \<^verbatim>\<open>boot_using_hart_bitmask_\<close>: \<open>ms\<close> holds the four machines \<^verbatim>\<open>boot_service1\<close> ..
  \<^verbatim>\<open>boot_service4\<close> by their index in the \<^verbatim>\<open>bootMachine\<close> table.
  \<open>boot_using_hart_bitmask_step\<close> is the body of its loop.
\<close>

definition boot_using_hart_bitmask_step ::
  "u32 \<Rightarrow> nat \<Rightarrow> (nat \<Rightarrow> StateMachine) \<times> event list \<times> bool
     \<Rightarrow> (nat \<Rightarrow> StateMachine) \<times> event list \<times> bool" where
  "boot_using_hart_bitmask_step restartHartBitmask i s =
     (case s of (ms, tr, result) \<Rightarrow>
        if restartHartBitmask AND push_bit (bootMachine_hartId ! i) 1 \<noteq> 0 then
          (case state (ms i) of
             BOOT_OPENSBI_INIT \<Rightarrow> (ms(i := (ms i)\<lparr>state := BOOT_OPENSBI_INIT\<rparr>), tr, True)
           | BOOT_SETUP_PMP_COMPLETE \<Rightarrow> (ms(i := (ms i)\<lparr>state := BOOT_INITIALIZATION\<rparr>), tr, True)
           | BOOT_IDLE \<Rightarrow> (ms(i := (ms i)\<lparr>state := BOOT_INITIALIZATION\<rparr>), tr, True)
           | BOOT_INITIALIZATION \<Rightarrow> (ms(i := (ms i)\<lparr>state := BOOT_INITIALIZATION\<rparr>), tr, True)
           | _ \<Rightarrow> (ms(i := (ms i)\<lparr>state := BOOT_INITIALIZATION\<rparr>),
                   tr @ [Ev_log LOG_ERROR ''invalid hart state''], True))
        else (ms, tr, result))"

definition boot_using_hart_bitmask' ::
  "(nat \<Rightarrow> StateMachine) \<Rightarrow> u32 \<Rightarrow> bool \<times> (nat \<Rightarrow> StateMachine) \<times> event list" where
  "boot_using_hart_bitmask' ms restartHartBitmask =
     (case fold (boot_using_hart_bitmask_step restartHartBitmask) [0 ..< length bootMachine_hartId]
             (ms, [], False) of
        (ms', tr, result) \<Rightarrow> (result, ms', tr @ [Ev_HSS_Trigger_Notify EVENT_POST_BOOT]))"

text \<open>
  \<^verbatim>\<open>validateCrc_\<close>: the shadow header is a copy of the header with \<^verbatim>\<open>headerCrc\<close> set to 0
  and every byte of \<^verbatim>\<open>signature\<close> set to 0. The result is the C return value, the header
  the argument points to after the call, and the log line of the failing case.
\<close>

definition validateCrc' :: "platform \<Rightarrow> HSS_BootImage \<Rightarrow> bool \<times> HSS_BootImage \<times> event list" where
  "validateCrc' K pImageHdr =
     (let shadowHdr = pImageHdr\<lparr>headerCrc := 0,
                                signature := replicate (length (signature pImageHdr)) 0\<rparr>;
          crcLen = (if version pImageHdr = 0 then sizeof_HSS_BootImage_v0 K
                    else sizeof_HSS_BootImage K);
          crc = CRC32_calculate K (take crcLen (header_bytes K shadowHdr))
      in if crc = headerCrc pImageHdr then (True, pImageHdr, [])
         else (False, pImageHdr, [Ev_log LOG_ERROR ''Checked HSS_BootImage header CRC'']))"

text \<open>
  \<^verbatim>\<open>HSS_Boot_Custom\<close>. \<open>custom_find_target\<close> is its first loop (the last hart with chunks
  wins), \<open>custom_zi_loop\<close> and \<open>custom_download_loop\<close> are its two \<^verbatim>\<open>while\<close> loops over the
  tables, each started at the element the C pointer starts at. With the custom boot flow
  the function ends by calling the payload's entry point; that call is recorded and the
  model goes on as the C code does when the payload returns.
\<close>

definition custom_find_target :: "HSS_BootImage \<Rightarrow> nat \<times> nat \<times> nat" where
  "custom_find_target img =
     fold (\<lambda>i s. if numChunks (hart img i) \<noteq> 0
                  then (i + 1, numChunks (hart img i), firstChunk (hart img i)) else s)
          [0 ..< 4] (0, 0, 0)"

fun custom_zi_loop :: "platform \<Rightarrow> nat \<Rightarrow> HSS_BootZIChunkDesc list \<Rightarrow> fault + event list" where
  "custom_zi_loop K t [] = Inl ReadPastTable"
| "custom_zi_loop K t (z # zs) =
     (if zi_size z \<noteq> 0 then
        (case custom_zi_loop K t zs of
           Inl f \<Rightarrow> Inl f
         | Inr tr \<Rightarrow>
             Inr ((if of_nat t = zi_owner z
                   then (if CONFIG_DEBUG_CHUNK_DOWNLOADS K then [Ev_log LOG_NORMAL ''ziChunk''] else [])
                        @ boot_do_zero_init_chunk z
                   else []) @ tr))
      else Inr [])"

function custom_download_loop ::
  "platform \<Rightarrow> env \<Rightarrow> nat \<Rightarrow> nat \<Rightarrow> HSS_BootChunkDesc list \<Rightarrow> fault + event list" where
  "custom_download_loop K e t offs [] = Inl ReadPastTable"
| "custom_download_loop K e t offs (c # cs) =
     (if chunk_size c \<noteq> 0 then
        (if owner c = of_nat t \<and> HSS_PMP_CheckWrite e t (execAddr c) (chunk_size c) then
           (case boot_do_download_chunk c offs BOOT_SUB_CHUNK_SIZE of
              Inl f \<Rightarrow> Inl f
            | Inr copy \<Rightarrow>
                (case (if chunk_size c < offs + BOOT_SUB_CHUNK_SIZE
                       then custom_download_loop K e t 0 cs
                       else custom_download_loop K e t (offs + BOOT_SUB_CHUNK_SIZE) (c # cs)) of
                   Inl f \<Rightarrow> Inl f
                 | Inr tr \<Rightarrow>
                     Inr ((if CONFIG_DEBUG_CHUNK_DOWNLOADS K \<and> offs = 0
                           then [Ev_log LOG_NORMAL ''chunk''] else []) @ copy @ tr)))
         else custom_download_loop K e t offs cs)
      else Inr [])"
  by pat_completeness auto
termination
  by (relation "measures [\<lambda>(K, e, t, offs, cs). length cs,
                          \<lambda>(K, e, t, offs, cs). (case cs of [] \<Rightarrow> 0 | c # _ \<Rightarrow> chunk_size c + BOOT_SUB_CHUNK_SIZE - offs)]")
     (auto simp: BOOT_SUB_CHUNK_SIZE_def)

definition HSS_Boot_Custom ::
  "platform \<Rightarrow> env \<Rightarrow> HSS_BootImage option \<Rightarrow> fault + (bool \<times> event list)" where
  "HSS_Boot_Custom K e pBootImage =
     (case pBootImage of
        None \<Rightarrow> Inr (False, [])
      | Some img \<Rightarrow>
          (case custom_find_target img of (t, nChunks, first) \<Rightarrow>
             if nChunks = 0 \<or> t = 0
             then Inr (False, [Ev_log LOG_ERROR ''Failed to find target HART''])
             else
               (case custom_zi_loop K t (ziChunkTable img) of
                  Inl f \<Rightarrow> Inl f
                | Inr zi \<Rightarrow>
                    (case table_read (chunkTable img) (Some first) of
                       Inl f \<Rightarrow> Inl f
                     | Inr c0 \<Rightarrow>
                         (case custom_download_loop K e t 0 (drop first (chunkTable img)) of
                            Inl f \<Rightarrow> Inl f
                          | Inr dl \<Rightarrow>
                              Inr (True,
                                   [Ev_log LOG_NORMAL ''Zeroing chunks''] @ zi
                                   @ [Ev_log LOG_NORMAL ''Downloading chunks''] @ dl
                                   @ (if CONFIG_SERVICE_BOOT_CUSTOM_FLOW K
                                      then [Ev_log LOG_NORMAL ''All HARTs jumping to entry address in M-mode'']
                                           @ map (\<lambda>i. Ev_IPI_Send i IPI_MSG_OPENSBI_INIT (PRV_M K)
                                                         (entryPoint (hart img (t - 1)))) [1 ..< 5]
                                           @ [Ev_jump_to_entry (entryPoint (hart img (t - 1)))]
                                      else [])))))))"

text \<open>
  \<^verbatim>\<open>HSS_Boot_ValidateImage\<close>: \<open>pImage\<close> is the argument, \<open>pBootImage\<close> the registered image
  (read by \<^verbatim>\<open>HSS_Boot_Custom\<close> only).
\<close>

definition HSS_Boot_ValidateImage ::
  "platform \<Rightarrow> env \<Rightarrow> HSS_BootImage option \<Rightarrow> HSS_BootImage option \<Rightarrow> fault + (bool \<times> event list)" where
  "HSS_Boot_ValidateImage K e pBootImage pImage =
     (if CONFIG_SERVICE_BOOT K then
        (case pImage of
           None \<Rightarrow> Inr (False, [Ev_log LOG_ERROR ''Boot Image NULL, ignoring''])
         | Some img \<Rightarrow>
             if magic img \<noteq> mHSS_BOOT_MAGIC K
             then Inr (False, [Ev_log LOG_ERROR ''Boot Image magic invalid, ignoring''])
             else if CONFIG_CRYPTO_SIGNING K \<and> \<not> HSS_Boot_Secure_CheckCodeSigning K img
             then Inr (False, [Ev_log LOG_ERROR ''Boot Image failed code signing''])
             else
               (case validateCrc' K img of (crcOk, img', tr) \<Rightarrow>
                  if crcOk then
                    (let tr1 = tr @ (if CONFIG_SERVICE_GPIO_UI K then [Ev_HSS_GPIO_UI_ReportImageGoodCRC] else [])
                                  @ [Ev_log LOG_NORMAL ''Boot image set name'']
                     in if CONFIG_SERVICE_BOOT_CUSTOM_FLOW K then
                          (case HSS_Boot_Custom K e pBootImage of
                             Inl f \<Rightarrow> Inl f
                           | Inr (r, tr2) \<Rightarrow> Inr (r, tr1 @ tr2))
                        else Inr (True, tr1))
                  else Inr (False, tr @ [Ev_log LOG_ERROR ''Boot image failed CRC''])))
      else Inr (False, []))"

definition HSS_Boot_VerifyMagic :: "platform \<Rightarrow> HSS_BootImage \<Rightarrow> bool \<times> event list" where
  "HSS_Boot_VerifyMagic K img =
     (if magic img = mHSS_BOOT_MAGIC K \<or> magic img = mHSS_COMPRESSED_MAGIC K then (True, [])
      else (False, [Ev_log LOG_WARN ''magic'']))"

text \<open>
  \<^verbatim>\<open>HSS_Boot_RestartCores_Using_Bitmask\<close>. \<open>restart_peer_mask\<close> is the inner loop that
  collects the harts with the entry point of \<open>source\<close>; \<open>restart_source_step\<close> is the body
  of the loop over \<open>source\<close>, on the loop state (remaining bitmask, machines, calls, result).
\<close>

definition restart_peer_mask :: "HSS_BootImage \<Rightarrow> nat \<Rightarrow> u32" where
  "restart_peer_mask img source =
     fold (\<lambda>peer l. if peer = source then l
                     else if entryPoint (hart img (peer - 1)) = entryPoint (hart img (source - 1))
                     then l OR push_bit peer 1 else l)
          bootMachine_hartId 0
     OR push_bit source 1"

definition restart_source_step ::
  "HSS_BootImage \<Rightarrow> nat \<Rightarrow> u32 \<times> (nat \<Rightarrow> StateMachine) \<times> event list \<times> IPIStatusCode
     \<Rightarrow> u32 \<times> (nat \<Rightarrow> StateMachine) \<times> event list \<times> IPIStatusCode" where
  "restart_source_step img source s =
     (case s of (restartHartBitmask, ms, tr, result) \<Rightarrow>
        if restartHartBitmask AND push_bit source 1 = 0 then s
        else
          (let localRestartHartBitmask = restart_peer_mask img source in
           if numChunks (hart img (source - 1)) \<noteq> 0 then
             (case boot_using_hart_bitmask' ms localRestartHartBitmask of (r, ms', tr') \<Rightarrow>
                (restartHartBitmask AND NOT localRestartHartBitmask, ms', tr @ tr',
                 if r then IPI_SUCCESS else result))
           else (restartHartBitmask AND NOT localRestartHartBitmask, ms, tr, result)))"

definition HSS_Boot_RestartCores_Using_Bitmask ::
  "platform \<Rightarrow> env \<Rightarrow> HSS_BootImage option \<Rightarrow> (nat \<Rightarrow> StateMachine) \<Rightarrow> u32
     \<Rightarrow> fault + (IPIStatusCode \<times> (nat \<Rightarrow> StateMachine) \<times> event list)" where
  "HSS_Boot_RestartCores_Using_Bitmask K e pBootImage ms restartHartBitmask =
     (case pBootImage of
        None \<Rightarrow> Inr (IPI_FAIL, ms, [Ev_log LOG_ERROR ''pBootImage is NULL''])
      | Some img \<Rightarrow>
          (case HSS_Boot_ValidateImage K e pBootImage pBootImage of
             Inl f \<Rightarrow> Inl f
           | Inr (valid, tr) \<Rightarrow>
               if \<not> valid then Inr (IPI_FAIL, ms, tr @ [Ev_log LOG_ERROR ''validation failed for Hart bitmask''])
               else
                 (case fold (restart_source_step img) [HSS_HART_U54_1 ..< HSS_HART_NUM_PEERS]
                         (restartHartBitmask, ms, tr, IPI_FAIL) of
                    (mask', ms', tr', result) \<Rightarrow> Inr (result, ms', tr'))))"

definition HSS_Boot_RestartCore ::
  "platform \<Rightarrow> env \<Rightarrow> HSS_BootImage option \<Rightarrow> (nat \<Rightarrow> StateMachine) \<Rightarrow> nat
     \<Rightarrow> fault + (IPIStatusCode \<times> (nat \<Rightarrow> StateMachine) \<times> event list)" where
  "HSS_Boot_RestartCore K e pBootImage ms source =
     (case pBootImage of
        None \<Rightarrow> Inl AssertionFailed
      | Some img \<Rightarrow>
          if source \<noteq> HSS_HART_ALL K
          then HSS_Boot_RestartCores_Using_Bitmask K e pBootImage ms (push_bit source 1)
          else
            (case HSS_Boot_ValidateImage K e pBootImage pBootImage of
               Inl f \<Rightarrow> Inl f
             | Inr (valid, tr) \<Rightarrow>
                 if \<not> valid then Inr (IPI_FAIL, ms, tr @ [Ev_log LOG_ERROR ''validation failed''])
                 else
                   (case boot_using_hart_bitmask' ms (HSSHartBitmask_u54_all K) of
                      (r, ms', tr') \<Rightarrow> Inr (if r then IPI_SUCCESS else IPI_FAIL, ms', tr @ tr'))))"

section \<open>PMP setup handler (runs on the target hart)\<close>

text \<open>
  \<^verbatim>\<open>HSS_Boot_PMPSetupHandler\<close>: the five IPI arguments are unused (cast to void) and left
  out. \<open>myHartId\<close> is \<^verbatim>\<open>current_hartid()\<close>; \<open>pmpSetupFlag\<close> is the static latch array. The
  result is the status code, the latch array after the call and the calls made.
\<close>

definition HSS_Boot_PMPSetupHandler ::
  "nat \<Rightarrow> (nat \<Rightarrow> bool) \<Rightarrow> IPIStatusCode \<times> (nat \<Rightarrow> bool) \<times> event list" where
  "HSS_Boot_PMPSetupHandler myHartId pmpSetupFlag =
     (if \<not> pmpSetupFlag myHartId
      then (IPI_SUCCESS, pmpSetupFlag(myHartId := True),
            [Ev_HSS_U54_SetState HSS_State_Booting, Ev_init_pmp myHartId, Ev_mss_set_apb_bus_cr])
      else (IPI_SUCCESS, pmpSetupFlag, [Ev_HSS_U54_SetState HSS_State_Booting]))"

text \<open>The static initialiser of \<^verbatim>\<open>pmpSetupFlag\<close>: every latch is clear.\<close>

definition pmpSetupFlag_init :: "nat \<Rightarrow> bool" where
  "pmpSetupFlag_init = (\<lambda>_. False)"

section \<open>Concrete platform, environments and images for the runs below\<close>

text \<open>
  Sample values for the constants that the missing headers define, a toy header layout
  and a toy checksum. They serve only to run the definitions on concrete inputs; no
  general theorem below depends on them.
\<close>

definition sample_header_bytes :: "HSS_BootImage \<Rightarrow> u8 list" where
  "sample_header_bytes img =
     [ucast (magic img), ucast (version img), ucast (headerCrc img)] @ signature img"

definition sample_crc :: "u8 list \<Rightarrow> u32" where
  "sample_crc bs = fold (\<lambda>b acc. acc * 31 + ucast b) bs 7"

definition sample_platform :: platform where
  "sample_platform =
     \<lparr>IPI_MAX_NUM_OUTSTANDING_COMPLETES = 16, ONE_SEC = 1000000, HSS_HART_ALL = 5,
      BOOT_FLAG_SKIP_OPENSBI = 1, BOOT_FLAG_SKIP_AUTOBOOT = 8,
      BOOT_FLAG_ALLOW_COLD_REBOOT = 2, BOOT_FLAG_ALLOW_WARM_REBOOT = 4,
      BOOT_FLAG_ANCILLIARY_DATA = 128, mHSS_BOOT_MAGIC = 0xB007C0DE,
      mHSS_COMPRESSED_MAGIC = 0xC08B8355, PRV_M = 3, dtb_start = 0,
      PERF_CTR_UNINITIALIZED = -1,
      HSSHartBitmask_u54_all = 30,
      sizeof_HSS_BootImage_v0 = 3, sizeof_HSS_BootImage = 5,
      header_bytes = sample_header_bytes, CRC32_calculate = sample_crc,
      HSS_Boot_Secure_CheckCodeSigning = (\<lambda>_. True),
      CONFIG_SERVICE_BOOT = True, CONFIG_CRYPTO_SIGNING = False,
      CONFIG_SERVICE_BOOT_CUSTOM_FLOW = False, CONFIG_PROVIDE_DTB = False,
      CONFIG_SERVICE_GPIO_UI = False, CONFIG_DEBUG_CHUNK_DOWNLOADS = False\<rparr>"

text \<open>
  \<open>sample_env now permitted\<close>: the clock reads \<open>now\<close>, both triggers have fired, the
  permission oracle answers \<open>permitted\<close> for every request, no address is in DDR, the IPI
  transport hands out slot 7, refuses every delivery and reports no slot complete.
\<close>

definition sample_env :: "nat \<Rightarrow> bool \<Rightarrow> env" where
  "sample_env now permitted =
     \<lparr>HSS_GetTime = now, EVENT_DDR_TRAINED = True, EVENT_STARTUP_COMPLETE = True,
      HSS_PMP_CheckWrite = (\<lambda>_ _ _. permitted), HSS_DDR_IsAddrInDDR = (\<lambda>_. False),
      IPI_MessageAlloc = Some 7, IPI_MessageDeliver = (\<lambda>_ _ _. False),
      IPI_MessageCheckIfComplete = (\<lambda>_. False), HSS_PerfCtr_Allocate = 0\<rparr>"

definition sample_hart :: "nat \<Rightarrow> nat \<Rightarrow> HSS_BootHart" where
  "sample_hart entry n =
     \<lparr>entryPoint = entry, privMode = 1, flags = 0, numChunks = n, firstChunk = 0,
      lastChunk = n - 1, name = ''u54''\<rparr>"

text \<open>
  \<open>sample_image harts chunks zis\<close>: a version-1 image with the plain magic, the given hart
  descriptors and tables, and the header CRC that the toy checksum gives its header.
\<close>

definition sample_image ::
  "(nat \<Rightarrow> HSS_BootHart) \<Rightarrow> HSS_BootChunkDesc list \<Rightarrow> HSS_BootZIChunkDesc list \<Rightarrow> HSS_BootImage" where
  "sample_image harts chunks zis =
     \<lparr>magic = 0xB007C0DE, version = 1, headerCrc = 405455510, signature = [5, 6],
      set_name = ''set'', chunkTableOffset = 1024, ziChunkTableOffset = 2048,
      hart = harts, chunkTable = chunks, ziChunkTable = zis\<rparr>"

definition chunk_sentinel :: HSS_BootChunkDesc where
  "chunk_sentinel = \<lparr>owner = 0, loadAddr = 0, execAddr = 0, chunk_size = 0\<rparr>"

definition zi_sentinel :: HSS_BootZIChunkDesc where
  "zi_sentinel = \<lparr>zi_owner = 0, zi_execAddr = 0, zi_size = 0\<rparr>"

text \<open>An image with one zero-init chunk of 64 bytes at address 4096, owned by hart 1.\<close>

definition zi_image :: HSS_BootImage where
  "zi_image =
     sample_image (\<lambda>_. sample_hart 0x80000000 1) [chunk_sentinel]
       [\<lparr>zi_owner = 1, zi_execAddr = 4096, zi_size = 64\<rparr>, zi_sentinel]"

text \<open>
  An image with one load chunk of \<open>sz\<close> bytes for hart 1, stored at offset 256 of the image
  and to be placed at 0x80000000.
\<close>

definition download_image :: "nat \<Rightarrow> HSS_BootImage" where
  "download_image sz =
     sample_image (\<lambda>_. sample_hart 0x80000000 1)
       [\<lparr>owner = 1, loadAddr = 256, execAddr = 0x80000000, chunk_size = sz\<rparr>, chunk_sentinel]
       [zi_sentinel]"

text \<open>
  Harts 1 and 2 share the entry point 0x81000000 and hart 1 holds the chunks (the boot-set
  of two of the spec's second scenario); harts 3 and 4 have no entry point.
\<close>

definition boot_set_image :: HSS_BootImage where
  "boot_set_image =
     sample_image (\<lambda>i. if i = 0 then sample_hart 0x81000000 1
                         else if i = 1 then sample_hart 0x81000000 0
                         else sample_hart 0 0)
       [\<lparr>owner = 1, loadAddr = 256, execAddr = 0x81000000, chunk_size = 512\<rparr>, chunk_sentinel]
       [zi_sentinel]"

text \<open>
  The machine of hart 1 in the Wait state, entered at tick 0, with the slots as
  \<^verbatim>\<open>register_harts\<close> leaves them except for the given auxiliary slots.
\<close>

definition wait_machine :: "(nat \<Rightarrow> u32) \<Rightarrow> StateMachine" where
  "wait_machine aux =
     (boot_service sample_platform 0)
       \<lparr>state := BOOT_WAIT, startTime := 0,
        pInstanceData := (localData sample_platform 0)\<lparr>msgIndexAux := aux\<rparr>\<rparr>"

section \<open>Notions used in the statements\<close>

text \<open>
  The specification's condition for a valid image, in its words: the image pointer is not
  null, the magic is the plain magic, the signing check passes or signing is disabled, and
  the header CRC matches.
\<close>

definition ValidateImage_spec :: "platform \<Rightarrow> HSS_BootImage option \<Rightarrow> bool" where
  "ValidateImage_spec K pImage =
     (case pImage of
        None \<Rightarrow> False
      | Some img \<Rightarrow>
          magic img = mHSS_BOOT_MAGIC K
          \<and> (if CONFIG_CRYPTO_SIGNING K then HSS_Boot_Secure_CheckCodeSigning K img else True)
          \<and> fst (validateCrc' K img))"

text \<open>An image that passes every check of the condition above and has no chunks for any hart.\<close>

definition empty_image :: HSS_BootImage where
  "empty_image = sample_image (\<lambda>_. sample_hart 0 0) [chunk_sentinel] [zi_sentinel]"

text \<open>The harts a restart bitmask selects: the U54 whose bit is set.\<close>

definition selected_harts :: "u32 \<Rightarrow> nat list" where
  "selected_harts restartHartBitmask =
     filter (\<lambda>s. restartHartBitmask AND push_bit s 1 \<noteq> 0) [HSS_HART_U54_1 ..< HSS_HART_NUM_PEERS]"

text \<open>
  The slots a machine holds: the auxiliary slots (one per peer, in table order) and the
  primary slot, without the entries that hold the sentinel
  \<^verbatim>\<open>IPI_MAX_NUM_OUTSTANDING_COMPLETES\<close>. All acknowledgements are observed when the
  transport reports every held slot complete.
\<close>

definition allocated_slots :: "platform \<Rightarrow> HSS_Boot_LocalData \<Rightarrow> u32 list" where
  "allocated_slots K d =
     filter (\<lambda>idx. idx \<noteq> IPI_MAX_NUM_OUTSTANDING_COMPLETES K)
       (map (\<lambda>peer. msgIndexAux d (peer - 1)) bootMachine_hartId @ [msgIndex d])"

definition acks_observed :: "platform \<Rightarrow> env \<Rightarrow> HSS_Boot_LocalData \<Rightarrow> bool" where
  "acks_observed K e d = list_all (IPI_MessageCheckIfComplete e) (allocated_slots K d)"

text \<open>
  The SetupPMP state as the scheduler runs it: the entry function, then the handler once
  per scheduler round (each with the environment of that round) until the handler moves
  the machine to SetupPMPComplete. \<open>enters_setup_pmp_complete K img e0 mi es m\<close> says that
  \<open>m\<close> is the machine that arrives in SetupPMPComplete this way, after the Init handler
  has started the boot of machine \<open>mi\<close> in the environment \<open>e0\<close>.
\<close>

fun boot_setup_pmp_ticks :: "platform \<Rightarrow> env list \<Rightarrow> StateMachine \<Rightarrow> fault + StateMachine" where
  "boot_setup_pmp_ticks K [] m = Inr m"
| "boot_setup_pmp_ticks K (e # es) m =
     (case boot_setup_pmp_handler K e m of
        Inl f \<Rightarrow> Inl f
      | Inr (m', tr) \<Rightarrow>
          if state m' = BOOT_SETUP_PMP_COMPLETE then Inr m' else boot_setup_pmp_ticks K es m')"

definition enters_setup_pmp_complete ::
  "platform \<Rightarrow> HSS_BootImage \<Rightarrow> env \<Rightarrow> StateMachine \<Rightarrow> env list \<Rightarrow> StateMachine \<Rightarrow> bool" where
  "enters_setup_pmp_complete K img e0 mi es m =
     (EVENT_DDR_TRAINED e0 \<and> EVENT_STARTUP_COMPLETE e0
      \<and> boot_setup_pmp_ticks K es
            (fst (boot_setup_pmp_onEntry K img (fst (boot_init_handler K e0 (Some img) mi)))) = Inr m
      \<and> state m = BOOT_SETUP_PMP_COMPLETE)"

text \<open>No auxiliary slot of the machine is allocated.\<close>

definition aux_clear :: "platform \<Rightarrow> HSS_Boot_LocalData \<Rightarrow> bool" where
  "aux_clear K d =
     list_all (\<lambda>peer. msgIndexAux d (peer - 1) = IPI_MAX_NUM_OUTSTANDING_COMPLETES K) bootMachine_hartId"

text \<open>
  The specification's boot-set of a hart: the harts of the \<^verbatim>\<open>bootMachine\<close> table with the
  same entry point, in table order; and its lowest-indexed member.
\<close>

definition boot_set :: "HSS_BootImage \<Rightarrow> nat \<Rightarrow> nat list" where
  "boot_set img t =
     filter (\<lambda>p. entryPoint (hart img (p - 1)) = entryPoint (hart img (t - 1))) bootMachine_hartId"

definition lowest_member :: "HSS_BootImage \<Rightarrow> nat \<Rightarrow> nat" where
  "lowest_member img t = hd (boot_set img t)"

text \<open>
  Harts 1 and 2 share the entry point 0x81000000 and the chunks belong to hart 2; harts 3
  and 4 have no entry point.
\<close>

definition second_hart_image :: HSS_BootImage where
  "second_hart_image =
     sample_image (\<lambda>i. if i = 0 then sample_hart 0x81000000 0
                         else if i = 1 then sample_hart 0x81000000 1
                         else sample_hart 0 0)
       [\<lparr>owner = 2, loadAddr = 256, execAddr = 0x81000000, chunk_size = 512\<rparr>, chunk_sentinel]
       [zi_sentinel]"

text \<open>
  A run of one machine: each step is an entry function, a handler call or an exit
  function with the environment of its scheduler round; the calls made are collected in
  order and a fault ends the run.
\<close>

fun run_steps ::
  "(StateMachine \<Rightarrow> fault + (StateMachine \<times> event list)) list \<Rightarrow> StateMachine
     \<Rightarrow> fault + (StateMachine \<times> event list)" where
  "run_steps [] m = Inr (m, [])"
| "run_steps (f # fs) m =
     (case f m of
        Inl x \<Rightarrow> Inl x
      | Inr (m1, tr1) \<Rightarrow>
          (case run_steps fs m1 of
             Inl x \<Rightarrow> Inl x
           | Inr (m2, tr2) \<Rightarrow> Inr (m2, tr1 @ tr2)))"

text \<open>
  The boot of hart 1 on \<open>boot_set_image\<close>, from Init (where a restart request puts the
  machine) to Complete, in the order of the state table. Up to the end of Download the
  transport delivers and acknowledges every message (\<open>env_ok\<close>); in OpenSBIInit it refuses
  the delivery to hart 2 (\<open>sample_env\<close>), which sends the machine to Error.
\<close>

definition env_ok :: "nat \<Rightarrow> env" where
  "env_ok now =
     (sample_env now True)\<lparr>IPI_MessageDeliver := (\<lambda>_ _ _. True),
                            IPI_MessageCheckIfComplete := (\<lambda>_. True)\<rparr>"

definition failed_delivery_run :: "fault + (StateMachine \<times> event list)" where
  "failed_delivery_run =
     run_steps
       [\<lambda>m. Inr (boot_init_handler sample_platform (env_ok 10) (Some boot_set_image) m),
        \<lambda>m. Inr (boot_setup_pmp_onEntry sample_platform boot_set_image m),
        boot_setup_pmp_handler sample_platform (env_ok 20),
        \<lambda>m. Inr (boot_setup_pmp_complete_handler sample_platform (env_ok 30) boot_set_image m),
        \<lambda>m. Inr (boot_zero_init_chunks_onEntry m, []),
        boot_zero_init_chunks_handler sample_platform (env_ok 40) boot_set_image,
        \<lambda>m. Inr (boot_download_chunks_onEntry sample_platform boot_set_image m),
        boot_download_chunks_handler sample_platform (env_ok 50) boot_set_image,
        boot_download_chunks_handler sample_platform (env_ok 60) boot_set_image,
        boot_download_chunks_handler sample_platform (env_ok 70) boot_set_image,
        boot_download_chunks_handler sample_platform (env_ok 80) boot_set_image,
        \<lambda>m. Inr (boot_download_chunks_onExit sample_platform boot_set_image m),
        \<lambda>m. Inr (boot_opensbi_init_onEntry boot_set_image m, []),
        boot_opensbi_init_handler sample_platform (sample_env 90 True) boot_set_image,
        boot_opensbi_init_handler sample_platform (sample_env 100 True) boot_set_image,
        \<lambda>m. Inr (boot_error_handler m)]
       ((boot_service sample_platform 0)\<lparr>state := BOOT_INITIALIZATION\<rparr>)"


text \<open>
  The boot of hart 1 on \<open>boot_set_image\<close> from Init up to its arrival in SetupPMPComplete,
  when the first delivery of the PMP setup message fails (\<open>sample_env\<close> refuses it): the
  SetupPMP handler runs twice.
\<close>

definition failed_pmp_delivery_run :: "fault + (StateMachine \<times> event list)" where
  "failed_pmp_delivery_run =
     run_steps
       [\<lambda>m. Inr (boot_init_handler sample_platform (env_ok 10) (Some boot_set_image) m),
        \<lambda>m. Inr (boot_setup_pmp_onEntry sample_platform boot_set_image m),
        boot_setup_pmp_handler sample_platform (sample_env 20 True),
        boot_setup_pmp_handler sample_platform (env_ok 30)]
       ((boot_service sample_platform 0)\<lparr>state := BOOT_INITIALIZATION\<rparr>)"

section \<open>Properties\<close>

lemmas sample_defs =
  sample_platform_def sample_env_def sample_image_def sample_hart_def chunk_sentinel_def
  zi_sentinel_def sample_header_bytes_def sample_crc_def localData_def boot_service_def
  bootMachine_hartId_def HSS_HART_U54_1_def HSS_HART_U54_2_def HSS_HART_U54_3_def
  HSS_HART_U54_4_def HSS_HART_NUM_PEERS_def

subsection \<open>The permission gate\<close>

text \<open>
  In the Download state a copy is made only for a chunk that the permission oracle has
  just accepted for the target, and a chunk the oracle refuses is passed over: the cursor
  moves on, one line is logged, nothing is copied and the state stays Download.
\<close>

lemma download_copies_only_when_permitted:
  assumes "boot_download_chunks_handler K e img m = Inr (m', tr)"
      and "Ev_memcpy_via_pdma dst src n \<in> set tr"
  shows "\<exists>c. table_read (chunkTable img) (pChunk (pInstanceData m)) = Inr c
           \<and> HSS_PMP_CheckWrite e (target (pInstanceData m)) (execAddr c) (chunk_size c)
           \<and> n = BOOT_SUB_CHUNK_SIZE
           \<and> dst = (execAddr c + subChunkOffset (pInstanceData m)) mod 2 ^ 64"
  using assms
  by (auto simp: boot_download_chunks_handler_def download_owned_chunk_def download_skip_chunk_def
        boot_do_download_chunk_def Let_def split: if_splits sum.splits)

lemma download_denied_chunk_is_skipped:
  assumes "table_read (chunkTable img) (pChunk (pInstanceData m)) = Inr c"
      and "numChunks (hart img (target (pInstanceData m) - 1)) \<noteq> 0"
      and "chunkCount (pInstanceData m) \<le> lastChunk (hart img (target (pInstanceData m) - 1))"
      and "chunk_size c \<noteq> 0"
      and "\<not> HSS_PMP_CheckWrite e (target (pInstanceData m)) (execAddr c) (chunk_size c)"
  shows "\<exists>lvl txt. boot_download_chunks_handler K e img m =
           Inr (m\<lparr>pInstanceData := (pInstanceData m)\<lparr>pChunk := map_option Suc (pChunk (pInstanceData m))\<rparr>\<rparr>,
                [Ev_log lvl txt])"
  using assms
  by (auto simp: boot_download_chunks_handler_def download_skip_chunk_def Let_def)

text \<open>The ZeroInit handler never asks the permission oracle: its result does not depend on it.\<close>

lemma zero_init_never_consults_permission_oracle:
  "boot_zero_init_chunks_handler K (e\<lparr>HSS_PMP_CheckWrite := f\<rparr>) img m =
   boot_zero_init_chunks_handler K e img m"
  by (simp add: boot_zero_init_chunks_handler_def split: sum.splits)

text \<open>
  Claim C1, at the input where the code departs from it. The permission oracle refuses
  every write; the ZeroInit handler, called for hart 1 on an image whose first zero-init
  chunk is owned by hart 1, still writes the 64 zero bytes at 4096 and moves to the next
  chunk.
\<close>

theorem zero_init_writes_without_permission:
  "(case boot_zero_init_chunks_handler sample_platform (sample_env 0 False) zi_image
           (boot_zero_init_chunks_onEntry (boot_service sample_platform 0)) of
      Inl f \<Rightarrow> False
    | Inr (m', tr) \<Rightarrow> tr = [Ev_memset 4096 64] \<and> pZiChunk (pInstanceData m') = Some 1)
   \<and> \<not> HSS_PMP_CheckWrite (sample_env 0 False) 1 4096 64"
  by (simp add: boot_zero_init_chunks_handler_def boot_zero_init_chunks_onEntry_def zi_image_def
        table_read_def boot_do_zero_init_chunk_def sample_defs)

subsection \<open>Sub-chunk copies\<close>

text \<open>
  Claim C3, at the input where the code departs from it. For a chunk of 100 bytes the one
  Download tick that handles it copies 256 bytes (not 100) and then advances the cursor.
\<close>

theorem download_small_chunk_copies_full_sub_chunk:
  "(case boot_download_chunks_handler sample_platform (sample_env 0 True) (download_image 100)
           (fst (boot_download_chunks_onEntry sample_platform (download_image 100)
                  (boot_service sample_platform 0))) of
      Inl f \<Rightarrow> False
    | Inr (m', tr) \<Rightarrow>
        tr = [Ev_memcpy_via_pdma 0x80000000 256 256]
        \<and> pChunk (pInstanceData m') = Some 1 \<and> chunkCount (pInstanceData m') = 1
        \<and> subChunkOffset (pInstanceData m') = 0)"
  by (simp add: boot_download_chunks_handler_def boot_download_chunks_onEntry_def download_image_def
        download_owned_chunk_def boot_do_download_chunk_def BOOT_SUB_CHUNK_SIZE_def
        table_read_def sample_defs Let_def)

subsection \<open>The Wait state\<close>

text \<open>
  The Wait handler stores the current time as start time before it tests the timeout, so
  the test never holds: whatever the clock reads, the handler leaves the machine in its
  state or moves it to Complete, never to Error.
\<close>

lemma boot_wait_never_times_out:
  "state (fst (boot_wait_handler K e img m)) = BOOT_COMPLETE
   \<or> state (fst (boot_wait_handler K e img m)) = state m"
  by (auto simp: boot_wait_handler_def HSS_Timer_IsElapsed_def Let_def split: prod.splits)

text \<open>
  Claim C4, at the input where the code departs from it. Hart 1 entered Wait at tick 0
  with auxiliary slot 7 outstanding and never acknowledged. Ten seconds later the handler
  still leaves the machine in Wait, frees nothing and has moved the start time to now.
\<close>

theorem wait_does_not_time_out_after_ten_seconds:
  "(case boot_wait_handler sample_platform (sample_env 10000000 True) boot_set_image
           (wait_machine ((\<lambda>_. 16)(0 := 7))) of
      (m', tr) \<Rightarrow>
        state m' = BOOT_WAIT \<and> tr = [] \<and> startTime m' = 10000000
        \<and> msgIndexAux (pInstanceData m') 0 = 7)
   \<and> startTime (wait_machine ((\<lambda>_. 16)(0 := 7))) + BOOT_WAIT_TIMEOUT sample_platform < 10000000"
  by (simp add: boot_wait_handler_def boot_set_image_def wait_machine_def HSS_Timer_IsElapsed_def
        BOOT_WAIT_TIMEOUT_def check_for_ipi_acks_def ack_poll_aux_def free_msg_index_def
        free_msg_index_aux_def free_all_aux_def sample_defs Let_def)


subsection \<open>The PMP latch\<close>

text \<open>
  Claim C9. Calling the PMP setup handler twice on the same hart, starting with that
  hart's latch clear, configures the PMP exactly once: the first call runs
  \<^verbatim>\<open>init_pmp\<close> and the APB bus configuration and sets the latch; the second call finds the
  latch set, makes neither call and leaves the latches as they are; both calls return
  \<^verbatim>\<open>IPI_SUCCESS\<close>.
\<close>

theorem pmp_setup_handler_twice:
  assumes "\<not> pmpSetupFlag h"
  shows "case HSS_Boot_PMPSetupHandler h pmpSetupFlag of (r1, f1, e1) \<Rightarrow>
           (case HSS_Boot_PMPSetupHandler h f1 of (r2, f2, e2) \<Rightarrow>
              r1 = IPI_SUCCESS \<and> r2 = IPI_SUCCESS
              \<and> e1 = [Ev_HSS_U54_SetState HSS_State_Booting, Ev_init_pmp h, Ev_mss_set_apb_bus_cr]
              \<and> f1 = pmpSetupFlag(h := True)
              \<and> e2 = [Ev_HSS_U54_SetState HSS_State_Booting]
              \<and> f2 = f1
              \<and> count_list (e1 @ e2) (Ev_init_pmp h) = 1
              \<and> count_list (e1 @ e2) Ev_mss_set_apb_bus_cr = 1)"
  using assms by (simp add: HSS_Boot_PMPSetupHandler_def)

theorem pmp_setup_handler_twice_witness:
  "\<not> pmpSetupFlag_init 1 \<and>
   (case HSS_Boot_PMPSetupHandler 1 pmpSetupFlag_init of (r1, f1, e1) \<Rightarrow>
      (case HSS_Boot_PMPSetupHandler 1 f1 of (r2, f2, e2) \<Rightarrow>
         r1 = IPI_SUCCESS \<and> r2 = IPI_SUCCESS \<and> f2 1
         \<and> count_list (e1 @ e2) (Ev_init_pmp 1) = 1))"
proof -
  have h: "\<not> pmpSetupFlag_init 1" by (simp add: pmpSetupFlag_init_def)
  show ?thesis
    using h pmp_setup_handler_twice [of pmpSetupFlag_init 1]
    by (auto split: prod.splits)
qed

subsection \<open>Message slots\<close>

text \<open>
  The acknowledgement poll assigns its result for each auxiliary slot, so the last
  allocated auxiliary slot decides: with slot 7 (hart 1) outstanding and unacknowledged
  and slot 8 (hart 2) acknowledged, the Wait handler frees slot 8 only and moves to
  Complete while the machine still holds slot 7.
\<close>

lemma wait_completes_with_unacknowledged_slot:
  "(case boot_wait_handler sample_platform
           ((sample_env 1000 True)\<lparr>IPI_MessageCheckIfComplete := (\<lambda>i. i = 8)\<rparr>) boot_set_image
           (wait_machine ((\<lambda>_. 16)(0 := 7, 1 := 8))) of
      (m', tr) \<Rightarrow>
        state m' = BOOT_COMPLETE \<and> tr = [Ev_IPI_MessageFree 8, Ev_MSS_STATUS_set 1]
        \<and> msgIndexAux (pInstanceData m') 0 = 7)"
  by (simp add: boot_wait_handler_def boot_set_image_def wait_machine_def HSS_Timer_IsElapsed_def
        BOOT_WAIT_TIMEOUT_def check_for_ipi_acks_def ack_poll_aux_def free_msg_index_def
        free_msg_index_aux_def free_all_aux_def sample_defs Let_def)

text \<open>
  Claim C6, at the input where the code departs from it. Hart 1 is the primary of the
  boot-set of harts 1 and 2 and boots from Init. The PMP slot 7 is allocated, delivered,
  acknowledged and freed; the chunk is copied; in OpenSBIInit the handler first passes over
  hart 1 itself, then allocates slot 7 again for hart 2, and the delivery fails. The
  machine goes to Error and from there to Complete: it still holds slot 7, and no
  \<^verbatim>\<open>IPI_MessageFree\<close> follows the second allocation. (The exit function of OpenSBIInit,
  where the scheduler runs it on this transition, allocates one more slot for hart 1 that
  nothing frees either.)
\<close>

theorem failed_delivery_leaves_slot_allocated:
  "(case failed_delivery_run of
      Inl f \<Rightarrow> False
    | Inr (m, tr) \<Rightarrow>
        state m = BOOT_COMPLETE
        \<and> allocated_slots sample_platform (pInstanceData m) = [7]
        \<and> tr = [Ev_BOOT_FAIL_CR 0, Ev_HSS_PerfCtr_Allocate,
                 Ev_mpfs_domains_register_hart 1 1, Ev_mpfs_domains_register_hart 2 1,
                 Ev_log LOG_NORMAL ''Registering domain'',
                 Ev_mpfs_domains_register_boot_hart ''u54'' 6 1 1 0x81000000 0 0 0,
                 Ev_IPI_MessageAlloc 7, Ev_IPI_MessageDeliver 7 1 IPI_MSG_PMP_SETUP 0 0 0,
                 Ev_IPI_MessageFree 7,
                 Ev_log LOG_NORMAL ''Processing boot image'',
                 Ev_memcpy_via_pdma 0x81000000 256 256,
                 Ev_memcpy_via_pdma 0x81000100 512 256,
                 Ev_memcpy_via_pdma 0x81000200 768 256,
                 Ev_mpfs_domains_register_hart 1 1, Ev_mpfs_domains_register_hart 2 1,
                 Ev_log LOG_NORMAL ''Registering domain'',
                 Ev_mpfs_domains_register_boot_hart ''u54'' 6 1 1 0x81000000 0 0 0,
                 Ev_IPI_MessageAlloc 7,
                 Ev_IPI_MessageDeliver 7 2 IPI_MSG_OPENSBI_INIT 1 0x81000000 0,
                 Ev_log LOG_ERROR ''sbi_init failed'',
                 Ev_log LOG_ERROR ''WARNING: Boot Error - transitioning to IDLE'',
                 Ev_BOOT_FAIL_CR 1])"
  by (simp add: failed_delivery_run_def env_ok_def boot_init_handler_def boot_setup_pmp_onEntry_def
        boot_setup_pmp_handler_def HSS_Boot_PMPSetupRequest_def boot_setup_pmp_complete_handler_def
        HSS_Timer_IsElapsed_def BOOT_SETUP_PMP_COMPLETE_TIMEOUT_def check_for_ipi_acks_def
        ack_poll_aux_def free_msg_index_def free_msg_index_aux_def
        boot_zero_init_chunks_onEntry_def boot_zero_init_chunks_handler_def
        boot_download_chunks_onEntry_def boot_download_chunks_handler_def download_owned_chunk_def
        download_skip_chunk_def boot_do_download_chunk_def BOOT_SUB_CHUNK_SIZE_def table_read_def
        boot_download_chunks_onExit_def register_harts_def register_harts_peer_def
        primary_boot_hart_def boot_opensbi_init_handler_def boot_opensbi_init_onEntry_def
        common_boot_message_delivery_def boot_error_handler_def allocated_slots_def
        boot_set_image_def sample_defs Let_def)

subsection \<open>Image validation\<close>

text \<open>
  Claim C8. The header CRC check computes the CRC over a shadow copy of the header in
  which \<^verbatim>\<open>headerCrc\<close> and every signature byte are zero, over the first
  \<^verbatim>\<open>sizeof(struct HSS_BootImage_v0)\<close> bytes when the version is 0 and over the first
  \<^verbatim>\<open>sizeof(struct HSS_BootImage)\<close> bytes for any other version; it succeeds exactly when
  the computed value equals the stored \<^verbatim>\<open>headerCrc\<close>; the image is left as it was. In
  particular the verdict does not depend on the signature bytes.
\<close>

theorem validateCrc_shadow_copy:
  "fst (validateCrc' K img) =
     (CRC32_calculate K
        (take (if version img = 0 then sizeof_HSS_BootImage_v0 K else sizeof_HSS_BootImage K)
           (header_bytes K (img\<lparr>headerCrc := 0, signature := replicate (length (signature img)) 0\<rparr>)))
      = headerCrc img)
   \<and> fst (snd (validateCrc' K img)) = img
   \<and> (length sig = length (signature img) \<longrightarrow>
        fst (validateCrc' K (img\<lparr>signature := sig\<rparr>)) = fst (validateCrc' K img))"
  by (simp add: validateCrc'_def Let_def)

theorem validateCrc_shadow_copy_witness:
  "length [9, 9 :: u8] = length (signature empty_image)
   \<and> fst (validateCrc' sample_platform (empty_image\<lparr>signature := [9, 9]\<rparr>))
   \<and> fst (validateCrc' sample_platform empty_image)
   \<and> fst (snd (validateCrc' sample_platform empty_image)) = empty_image"
proof -
  have ok: "fst (validateCrc' sample_platform empty_image)"
    by (simp add: validateCrc'_def empty_image_def sample_defs)
  have len: "length [9, 9 :: u8] = length (signature empty_image)"
    by (simp add: empty_image_def sample_defs)
  from validateCrc_shadow_copy [of sample_platform empty_image "[9, 9]"] ok len
  show ?thesis by simp
qed

text \<open>
  Claim C2 as stated fails in a build with the custom boot flow: there the result of a
  successful check is the result of \<^verbatim>\<open>HSS_Boot_Custom\<close>, which is false for an image in
  which no hart has chunks, although the image is not null, has the plain magic and a
  matching header CRC, and signing is disabled.
\<close>

theorem validate_image_custom_flow_counterexample:
  "HSS_Boot_ValidateImage (sample_platform\<lparr>CONFIG_SERVICE_BOOT_CUSTOM_FLOW := True\<rparr>)
     (sample_env 0 True) (Some empty_image) (Some empty_image)
   = Inr (False, [Ev_log LOG_NORMAL ''Boot image set name'',
                  Ev_log LOG_ERROR ''Failed to find target HART''])
   \<and> ValidateImage_spec (sample_platform\<lparr>CONFIG_SERVICE_BOOT_CUSTOM_FLOW := True\<rparr>) (Some empty_image)"
  by (simp add: HSS_Boot_ValidateImage_def ValidateImage_spec_def HSS_Boot_Custom_def
        custom_find_target_def validateCrc'_def empty_image_def sample_defs Let_def upt_rec)

text \<open>
  Claim C2, amended. In a build with the boot service and without the custom boot flow,
  \<^verbatim>\<open>HSS_Boot_ValidateImage\<close> returns true if and only if the image pointer is not null, the
  magic is the plain magic, the signing check passes whenever signing is enabled, and the
  header CRC matches. In every build it returns true only if these hold. When it returns
  false for the registered image, the callers in this file decline to boot: both restart
  functions return \<^verbatim>\<open>IPI_FAIL\<close> and leave every machine as it was.
\<close>

theorem validate_image_amended:
  "(CONFIG_SERVICE_BOOT K \<and> \<not> CONFIG_SERVICE_BOOT_CUSTOM_FLOW K \<longrightarrow>
      (\<exists>tr. HSS_Boot_ValidateImage K e pB pImage = Inr (ValidateImage_spec K pImage, tr)))
   \<and> (HSS_Boot_ValidateImage K e pB pImage = Inr (True, tr1) \<longrightarrow> ValidateImage_spec K pImage)
   \<and> (HSS_Boot_ValidateImage K e pB pB = Inr (False, tr2) \<longrightarrow>
        (\<exists>tr. HSS_Boot_RestartCores_Using_Bitmask K e pB ms bitmask = Inr (IPI_FAIL, ms, tr))
        \<and> ((\<exists>tr. HSS_Boot_RestartCore K e pB ms (HSS_HART_ALL K) = Inr (IPI_FAIL, ms, tr))
            \<or> pB = None))"
  apply (intro conjI impI)
     apply (auto simp: HSS_Boot_ValidateImage_def ValidateImage_spec_def Let_def
         split: option.splits prod.splits if_splits sum.splits)[2]
   apply (auto simp: HSS_Boot_RestartCores_Using_Bitmask_def HSS_Boot_RestartCore_def
       split: option.splits)
  done

theorem validate_image_amended_witness:
  "CONFIG_SERVICE_BOOT sample_platform \<and> \<not> CONFIG_SERVICE_BOOT_CUSTOM_FLOW sample_platform
   \<and> HSS_Boot_ValidateImage sample_platform (sample_env 0 True) None (Some empty_image)
       = Inr (True, [Ev_log LOG_NORMAL ''Boot image set name''])
   \<and> ValidateImage_spec sample_platform (Some empty_image)
   \<and> HSS_Boot_ValidateImage sample_platform (sample_env 0 True)
        (Some (empty_image\<lparr>magic := 0\<rparr>)) (Some (empty_image\<lparr>magic := 0\<rparr>))
       = Inr (False, [Ev_log LOG_ERROR ''Boot Image magic invalid, ignoring''])
   \<and> (\<exists>tr. HSS_Boot_RestartCores_Using_Bitmask sample_platform (sample_env 0 True)
               (Some (empty_image\<lparr>magic := 0\<rparr>)) (boot_service sample_platform) 2
             = Inr (IPI_FAIL, boot_service sample_platform, tr))"
proof -
  have cfg: "CONFIG_SERVICE_BOOT sample_platform \<and> \<not> CONFIG_SERVICE_BOOT_CUSTOM_FLOW sample_platform"
    by (simp add: sample_defs)
  have good: "HSS_Boot_ValidateImage sample_platform (sample_env 0 True) None (Some empty_image)
                = Inr (True, [Ev_log LOG_NORMAL ''Boot image set name''])"
    by (simp add: HSS_Boot_ValidateImage_def validateCrc'_def empty_image_def sample_defs Let_def)
  have bad: "HSS_Boot_ValidateImage sample_platform (sample_env 0 True)
               (Some (empty_image\<lparr>magic := 0\<rparr>)) (Some (empty_image\<lparr>magic := 0\<rparr>))
               = Inr (False, [Ev_log LOG_ERROR ''Boot Image magic invalid, ignoring''])"
    by (simp add: HSS_Boot_ValidateImage_def empty_image_def sample_defs)
  from validate_image_amended
         [of sample_platform "sample_env 0 True" None "Some empty_image"
             "[Ev_log LOG_NORMAL ''Boot image set name'']"] good
  have spec: "ValidateImage_spec sample_platform (Some empty_image)"
    by blast
  from validate_image_amended
         [of sample_platform "sample_env 0 True" "Some (empty_image\<lparr>magic := 0\<rparr>)"
             "Some (empty_image\<lparr>magic := 0\<rparr>)" _
             "[Ev_log LOG_ERROR ''Boot Image magic invalid, ignoring'']"
             "boot_service sample_platform" 2] bad
  have declined: "\<exists>tr. HSS_Boot_RestartCores_Using_Bitmask sample_platform (sample_env 0 True)
                         (Some (empty_image\<lparr>magic := 0\<rparr>)) (boot_service sample_platform) 2
                       = Inr (IPI_FAIL, boot_service sample_platform, tr)"
    by blast
  from cfg good spec bad declined show ?thesis by blast
qed

subsection \<open>Restart by bitmask\<close>

text \<open>
  Clearing bits of the bitmask selects no new hart, and a source without chunks changes
  nothing but the bitmask; so the loop over the sources leaves machines, calls and result
  alone when no selected source has chunks.
\<close>

lemma and_not_selected:
  fixes bm :: u32
  assumes "(bm AND NOT l) AND p \<noteq> 0"
  shows "bm AND p \<noteq> 0"
proof
  assume z: "bm AND p = 0"
  have "(bm AND NOT l) AND p = (bm AND p) AND NOT l"
    by (simp add: ac_simps)
  with z assms show False by simp
qed

lemma fold_restart_source_step_no_chunks:
  assumes "\<forall>s\<in>set srcs. bm AND push_bit s 1 \<noteq> 0 \<longrightarrow> numChunks (hart img (s - 1)) = 0"
  shows "\<exists>bm'. fold (restart_source_step img) srcs (bm, ms, tr, r) = (bm', ms, tr, r)"
  using assms
proof (induction srcs arbitrary: bm)
  case Nil
  then show ?case by simp
next
  case (Cons s srcs)
  show ?case
  proof (cases "bm AND push_bit s 1 = 0")
    case True
    then have "restart_source_step img s (bm, ms, tr, r) = (bm, ms, tr, r)"
      by (simp add: restart_source_step_def)
    with Cons show ?thesis by simp
  next
    case False
    with Cons.prems have nc: "numChunks (hart img (s - 1)) = 0" by simp
    with False have step: "restart_source_step img s (bm, ms, tr, r)
                            = (bm AND NOT (restart_peer_mask img s), ms, tr, r)"
      by (simp add: restart_source_step_def Let_def)
    have "\<forall>s'\<in>set srcs. (bm AND NOT (restart_peer_mask img s)) AND push_bit s' 1 \<noteq> 0
             \<longrightarrow> numChunks (hart img (s' - 1)) = 0"
      using Cons.prems and_not_selected by auto
    from Cons.IH [OF this] step show ?thesis by simp
  qed
qed

lemma restart_no_chunks_fails:
  assumes v: "HSS_Boot_ValidateImage K e (Some img) (Some img) = Inr (True, tr0)"
      and n: "list_all (\<lambda>s. numChunks (hart img (s - 1)) = 0) (selected_harts bitmask)"
  shows "HSS_Boot_RestartCores_Using_Bitmask K e (Some img) ms bitmask = Inr (IPI_FAIL, ms, tr0)"
proof -
  from n have "\<forall>s\<in>set [HSS_HART_U54_1 ..< HSS_HART_NUM_PEERS].
                 bitmask AND push_bit s 1 \<noteq> 0 \<longrightarrow> numChunks (hart img (s - 1)) = 0"
    by (auto simp: selected_harts_def list_all_iff)
  from fold_restart_source_step_no_chunks [OF this, of ms tr0 IPI_FAIL]
  obtain bm' where "fold (restart_source_step img) [HSS_HART_U54_1 ..< HSS_HART_NUM_PEERS]
                      (bitmask, ms, tr0, IPI_FAIL) = (bm', ms, tr0, IPI_FAIL)" by blast
  with v show ?thesis
    by (simp add: HSS_Boot_RestartCores_Using_Bitmask_def)
qed

lemma restart_success_has_chunks:
  assumes "HSS_Boot_RestartCores_Using_Bitmask K e pB ms bitmask = Inr (IPI_SUCCESS, ms', tr)"
  shows "\<exists>img. pB = Some img \<and> \<not> list_all (\<lambda>s. numChunks (hart img (s - 1)) = 0) (selected_harts bitmask)"
proof (cases pB)
  case None
  with assms show ?thesis by (simp add: HSS_Boot_RestartCores_Using_Bitmask_def)
next
  case (Some img)
  show ?thesis
  proof (rule ccontr)
    assume "\<not> ?thesis"
    with Some have n: "list_all (\<lambda>s. numChunks (hart img (s - 1)) = 0) (selected_harts bitmask)" by simp
    from assms Some obtain tr0 where v: "HSS_Boot_ValidateImage K e (Some img) (Some img) = Inr (True, tr0)"
      by (auto simp: HSS_Boot_RestartCores_Using_Bitmask_def split: sum.splits prod.splits if_splits)
    from restart_no_chunks_fails [OF v n, of ms] assms Some show False by simp
  qed
qed

text \<open>
  Claim C10. \<^verbatim>\<open>HSS_Boot_RestartCores_Using_Bitmask\<close> returns \<^verbatim>\<open>IPI_SUCCESS\<close> only if some
  hart selected by the bitmask has a non-zero \<^verbatim>\<open>numChunks\<close> in the registered image: when
  the image is registered and validates and every selected hart has \<^verbatim>\<open>numChunks == 0\<close>, the
  call returns \<^verbatim>\<open>IPI_FAIL\<close>, no machine is changed and nothing is done beyond the
  validation.
\<close>

theorem restart_by_bitmask_needs_chunks:
  "(HSS_Boot_ValidateImage K e (Some img) (Some img) = Inr (True, tr0)
      \<and> list_all (\<lambda>s. numChunks (hart img (s - 1)) = 0) (selected_harts bitmask)
    \<longrightarrow> HSS_Boot_RestartCores_Using_Bitmask K e (Some img) ms bitmask = Inr (IPI_FAIL, ms, tr0))
   \<and> (HSS_Boot_RestartCores_Using_Bitmask K e pB ms bitmask = Inr (IPI_SUCCESS, ms', tr)
    \<longrightarrow> (\<exists>img'. pB = Some img'
           \<and> \<not> list_all (\<lambda>s. numChunks (hart img' (s - 1)) = 0) (selected_harts bitmask)))"
  using restart_no_chunks_fails restart_success_has_chunks by blast

theorem restart_by_bitmask_needs_chunks_witness:
  "HSS_Boot_ValidateImage sample_platform (sample_env 0 True) (Some empty_image) (Some empty_image)
     = Inr (True, [Ev_log LOG_NORMAL ''Boot image set name''])
   \<and> list_all (\<lambda>s. numChunks (hart empty_image (s - 1)) = 0) (selected_harts 6)
   \<and> HSS_Boot_RestartCores_Using_Bitmask sample_platform (sample_env 0 True) (Some empty_image)
        (boot_service sample_platform) 6
     = Inr (IPI_FAIL, boot_service sample_platform, [Ev_log LOG_NORMAL ''Boot image set name''])
   \<and> (case HSS_Boot_RestartCores_Using_Bitmask sample_platform (sample_env 0 True)
              (Some (download_image 100)) (boot_service sample_platform) 2 of
         Inl f \<Rightarrow> False
       | Inr (r, ms', tr) \<Rightarrow> r = IPI_SUCCESS \<and> state (ms' 0) = BOOT_INITIALIZATION)
   \<and> \<not> list_all (\<lambda>s. numChunks (hart (download_image 100) (s - 1)) = 0) (selected_harts 2)"
proof -
  have v: "HSS_Boot_ValidateImage sample_platform (sample_env 0 True) (Some empty_image) (Some empty_image)
             = Inr (True, [Ev_log LOG_NORMAL ''Boot image set name''])"
    by (simp add: HSS_Boot_ValidateImage_def validateCrc'_def empty_image_def sample_defs Let_def)
  have n: "list_all (\<lambda>s. numChunks (hart empty_image (s - 1)) = 0) (selected_harts 6)"
    by (simp add: selected_harts_def empty_image_def sample_defs upt_rec)
  from restart_by_bitmask_needs_chunks
         [of sample_platform "sample_env 0 True" empty_image _ 6 "boot_service sample_platform"] v n
  have fail: "HSS_Boot_RestartCores_Using_Bitmask sample_platform (sample_env 0 True) (Some empty_image)
                (boot_service sample_platform) 6
              = Inr (IPI_FAIL, boot_service sample_platform, [Ev_log LOG_NORMAL ''Boot image set name''])"
    by blast
  have run: "case HSS_Boot_RestartCores_Using_Bitmask sample_platform (sample_env 0 True)
              (Some (download_image 100)) (boot_service sample_platform) 2 of
         Inl f \<Rightarrow> False
       | Inr (r, ms', tr) \<Rightarrow> r = IPI_SUCCESS \<and> state (ms' 0) = BOOT_INITIALIZATION"
    by (simp add: HSS_Boot_RestartCores_Using_Bitmask_def HSS_Boot_ValidateImage_def validateCrc'_def
          restart_source_step_def restart_peer_mask_def boot_using_hart_bitmask'_def
          boot_using_hart_bitmask_step_def download_image_def sample_defs Let_def upt_rec)
  then obtain ms' tr where ok: "HSS_Boot_RestartCores_Using_Bitmask sample_platform (sample_env 0 True)
              (Some (download_image 100)) (boot_service sample_platform) 2 = Inr (IPI_SUCCESS, ms', tr)"
    by (auto split: sum.splits)
  from restart_by_bitmask_needs_chunks
         [of sample_platform "sample_env 0 True" _ _ 2 "boot_service sample_platform"
             "Some (download_image 100)" ms' tr] ok
  have some: "\<not> list_all (\<lambda>s. numChunks (hart (download_image 100) (s - 1)) = 0) (selected_harts 2)"
    by blast
  from v n fail run some show ?thesis by blast
qed

subsection \<open>The SetupPMPComplete state\<close>

text \<open>
  Freeing a slot and polling an acknowledged slot, as one equation each; the timeout
  branch shared by SetupPMPComplete and Wait frees exactly the slots the machine holds.
\<close>

lemma free_msg_index_aux_eq:
  "free_msg_index_aux K peer d tr =
     (d\<lparr>msgIndexAux := (msgIndexAux d)(peer - 1 := IPI_MAX_NUM_OUTSTANDING_COMPLETES K)\<rparr>,
      tr @ (if msgIndexAux d (peer - 1) \<noteq> IPI_MAX_NUM_OUTSTANDING_COMPLETES K
            then [Ev_IPI_MessageFree (msgIndexAux d (peer - 1))] else []))"
proof (cases "msgIndexAux d (peer - 1) = IPI_MAX_NUM_OUTSTANDING_COMPLETES K")
  case True
  then have "(msgIndexAux d)(peer - 1 := IPI_MAX_NUM_OUTSTANDING_COMPLETES K) = msgIndexAux d"
    by (metis fun_upd_triv)
  with True show ?thesis by (simp add: free_msg_index_aux_def)
next
  case False
  then show ?thesis by (simp add: free_msg_index_aux_def)
qed

lemma free_msg_index_eq:
  "free_msg_index K d tr =
     (d\<lparr>msgIndex := IPI_MAX_NUM_OUTSTANDING_COMPLETES K\<rparr>,
      tr @ (if msgIndex d \<noteq> IPI_MAX_NUM_OUTSTANDING_COMPLETES K
            then [Ev_IPI_MessageFree (msgIndex d)] else []))"
  by (cases "msgIndex d = IPI_MAX_NUM_OUTSTANDING_COMPLETES K") (auto simp: free_msg_index_def)

lemma timeout_frees_every_slot:
  assumes "free_all_aux K d tr = (d1, tr1)" and "free_msg_index K d1 tr1 = (d2, tr2)"
  shows "allocated_slots K d2 = [] \<and> tr2 = tr @ map Ev_IPI_MessageFree (allocated_slots K d)"
  using assms
  by (auto simp: free_all_aux_def free_msg_index_aux_eq free_msg_index_eq allocated_slots_def
        bootMachine_hartId_def HSS_HART_U54_1_def HSS_HART_U54_2_def HSS_HART_U54_3_def HSS_HART_U54_4_def)


lemmas hart_id_defs = bootMachine_hartId_def HSS_HART_U54_1_def HSS_HART_U54_2_def HSS_HART_U54_3_def HSS_HART_U54_4_def

lemma ack_poll_aux_acked:
  assumes "msgIndexAux d (peer - 1) = IPI_MAX_NUM_OUTSTANDING_COMPLETES K
           \<or> IPI_MessageCheckIfComplete e (msgIndexAux d (peer - 1))"
  shows "ack_poll_aux K e peer (d, tr, True) =
           (d\<lparr>msgIndexAux := (msgIndexAux d)(peer - 1 := IPI_MAX_NUM_OUTSTANDING_COMPLETES K)\<rparr>,
            tr @ (if msgIndexAux d (peer - 1) \<noteq> IPI_MAX_NUM_OUTSTANDING_COMPLETES K
                  then [Ev_IPI_MessageFree (msgIndexAux d (peer - 1))] else []),
            True)"
proof (cases "msgIndexAux d (peer - 1) = IPI_MAX_NUM_OUTSTANDING_COMPLETES K")
  case True
  then have "(msgIndexAux d)(peer - 1 := IPI_MAX_NUM_OUTSTANDING_COMPLETES K) = msgIndexAux d"
    by (metis fun_upd_triv)
  with True show ?thesis by (simp add: ack_poll_aux_def)
next
  case False
  with assms show ?thesis by (simp add: ack_poll_aux_def free_msg_index_aux_eq)
qed

lemma check_for_ipi_acks_all_acked:
  assumes "acks_observed K e d"
  shows "snd (snd (check_for_ipi_acks K e d))"
proof -
  from assms have a:
    "msgIndexAux d 0 = IPI_MAX_NUM_OUTSTANDING_COMPLETES K \<or> IPI_MessageCheckIfComplete e (msgIndexAux d 0)"
    "msgIndexAux d 1 = IPI_MAX_NUM_OUTSTANDING_COMPLETES K \<or> IPI_MessageCheckIfComplete e (msgIndexAux d 1)"
    "msgIndexAux d 2 = IPI_MAX_NUM_OUTSTANDING_COMPLETES K \<or> IPI_MessageCheckIfComplete e (msgIndexAux d 2)"
    "msgIndexAux d 3 = IPI_MAX_NUM_OUTSTANDING_COMPLETES K \<or> IPI_MessageCheckIfComplete e (msgIndexAux d 3)"
    "msgIndex d = IPI_MAX_NUM_OUTSTANDING_COMPLETES K \<or> IPI_MessageCheckIfComplete e (msgIndex d)"
    by (auto simp: acks_observed_def allocated_slots_def hart_id_defs split: if_splits)
  have s1: "ack_poll_aux K e 1 (d, [], True) = (d\<lparr>msgIndexAux := (msgIndexAux d)(0 := IPI_MAX_NUM_OUTSTANDING_COMPLETES K)\<rparr>,
            [] @ (if msgIndexAux d 0 \<noteq> IPI_MAX_NUM_OUTSTANDING_COMPLETES K
                  then [Ev_IPI_MessageFree (msgIndexAux d 0)] else []), True)"
    using ack_poll_aux_acked [of d 1 K e "[]"] a(1) by simp
  show ?thesis
    using a
    apply (simp add: check_for_ipi_acks_def hart_id_defs s1 ack_poll_aux_acked free_msg_index_eq split: prod.splits)
    apply blast
    done
qed

text \<open>
  \<^verbatim>\<open>register_harts\<close> clears the four auxiliary slots, and the SetupPMP handler touches
  neither them nor the start time.
\<close>

lemma register_harts_peer_aux:
  "msgIndexAux (fst (register_harts_peer K img t peer (d, tr))) =
     (msgIndexAux d)(peer - 1 := IPI_MAX_NUM_OUTSTANDING_COMPLETES K)"
  by (simp add: register_harts_peer_def Let_def)

lemma fold_register_harts_peer_aux:
  "msgIndexAux (fst (fold (register_harts_peer K img t) ps s)) =
     fold (\<lambda>p a. a(p - 1 := IPI_MAX_NUM_OUTSTANDING_COMPLETES K)) ps (msgIndexAux (fst s))"
proof (induction ps arbitrary: s)
  case Nil
  then show ?case by simp
next
  case (Cons p ps)
  obtain d tr where s: "s = (d, tr)" by (cases s)
  show ?case
    by (simp add: Cons.IH s register_harts_peer_aux)
qed

lemma register_harts_data:
  "pInstanceData (fst (register_harts K img m)) =
     fst (fold (register_harts_peer K img (target (pInstanceData m))) bootMachine_hartId
            ((pInstanceData m)\<lparr>msgIndex := IPI_MAX_NUM_OUTSTANDING_COMPLETES K\<rparr>, []))"
  by (simp add: register_harts_def Let_def split: prod.splits)

lemma register_harts_clears_aux:
  "aux_clear K (pInstanceData (fst (register_harts K img m)))"
  unfolding aux_clear_def register_harts_data fold_register_harts_peer_aux
  by (simp add: hart_id_defs)

lemma boot_setup_pmp_handler_aux:
  assumes "boot_setup_pmp_handler K e m = Inr (m', tr)"
  shows "msgIndexAux (pInstanceData m') = msgIndexAux (pInstanceData m)"
  using assms
  by (auto simp: boot_setup_pmp_handler_def split: if_splits sum.splits prod.splits)

lemma boot_setup_pmp_ticks_aux:
  assumes "boot_setup_pmp_ticks K es m = Inr m'"
  shows "msgIndexAux (pInstanceData m') = msgIndexAux (pInstanceData m)"
  using assms
proof (induction es arbitrary: m)
  case Nil
  then show ?case by simp
next
  case (Cons e es)
  then show ?case
    by (auto split: sum.splits prod.splits if_splits dest: boot_setup_pmp_handler_aux)
qed

lemma enters_setup_pmp_complete_aux_clear:
  assumes "enters_setup_pmp_complete K img e0 mi es m"
  shows "aux_clear K (pInstanceData m)"
proof -
  from assms have "boot_setup_pmp_ticks K es
                      (fst (register_harts K img (fst (boot_init_handler K e0 (Some img) mi)))) = Inr m"
    by (simp add: enters_setup_pmp_complete_def boot_setup_pmp_onEntry_def)
  from boot_setup_pmp_ticks_aux [OF this]
       register_harts_clears_aux [of K img "fst (boot_init_handler K e0 (Some img) mi)"]
  show ?thesis by (simp add: aux_clear_def)
qed

lemma check_for_ipi_acks_aux_clear:
  assumes "aux_clear K d"
  shows "snd (snd (check_for_ipi_acks K e d)) = acks_observed K e d"
  using assms
  by (auto simp: aux_clear_def check_for_ipi_acks_def ack_poll_aux_def acks_observed_def
        allocated_slots_def free_msg_index_eq hart_id_defs)


lemma boot_setup_pmp_handler_startTime:
  assumes "boot_setup_pmp_handler K e m = Inr (m', tr)"
  shows "startTime m' = startTime m"
  using assms
  by (auto simp: boot_setup_pmp_handler_def split: if_splits sum.splits prod.splits)

lemma boot_setup_pmp_ticks_startTime:
  assumes "boot_setup_pmp_ticks K es m = Inr m'"
  shows "startTime m' = startTime m"
  using assms
proof (induction es arbitrary: m)
  case Nil
  then show ?case by simp
next
  case (Cons e es)
  then show ?case
    by (auto split: sum.splits prod.splits if_splits dest: boot_setup_pmp_handler_startTime)
qed

lemma enters_setup_pmp_complete_startTime:
  assumes "enters_setup_pmp_complete K img e0 mi es m"
  shows "startTime m = HSS_GetTime e0"
proof -
  from assms have t: "boot_setup_pmp_ticks K es
                      (fst (register_harts K img (fst (boot_init_handler K e0 (Some img) mi)))) = Inr m"
    and tr: "EVENT_DDR_TRAINED e0" "EVENT_STARTUP_COMPLETE e0"
    by (simp_all add: enters_setup_pmp_complete_def boot_setup_pmp_onEntry_def)
  have "startTime (fst (register_harts K img (fst (boot_init_handler K e0 (Some img) mi)))) = HSS_GetTime e0"
    using tr by (simp add: register_harts_def boot_init_handler_def Let_def split: prod.splits)
  with boot_setup_pmp_ticks_startTime [OF t] show ?thesis by simp
qed

lemma setup_pmp_complete_timeout:
  assumes "HSS_Timer_IsElapsed e (startTime m) (BOOT_SETUP_PMP_COMPLETE_TIMEOUT K)"
  shows "case boot_setup_pmp_complete_handler K e img m of (m', tr) \<Rightarrow>
           state m' = BOOT_ERROR \<and> allocated_slots K (pInstanceData m') = []
           \<and> tr = Ev_log LOG_ERROR ''Timeout'' # map Ev_IPI_MessageFree (allocated_slots K (pInstanceData m))"
  using assms timeout_frees_every_slot [of K "pInstanceData m" "[Ev_log LOG_ERROR ''Timeout'']"]
  by (auto simp: boot_setup_pmp_complete_handler_def split: prod.splits)

lemma setup_pmp_complete_acked:
  assumes "\<not> HSS_Timer_IsElapsed e (startTime m) (BOOT_SETUP_PMP_COMPLETE_TIMEOUT K)"
      and "acks_observed K e (pInstanceData m)"
  shows "state (fst (boot_setup_pmp_complete_handler K e img m)) =
           (if flags (hart img (target (pInstanceData m) - 1)) AND BOOT_FLAG_SKIP_AUTOBOOT K \<noteq> 0
            then BOOT_COMPLETE else BOOT_ZERO_INIT_CHUNKS)"
  using assms check_for_ipi_acks_all_acked [of K e "pInstanceData m"]
  by (auto simp: boot_setup_pmp_complete_handler_def split: prod.splits)

lemma setup_pmp_complete_waits:
  assumes "\<not> HSS_Timer_IsElapsed e (startTime m) (BOOT_SETUP_PMP_COMPLETE_TIMEOUT K)"
      and "aux_clear K (pInstanceData m)"
      and "\<not> acks_observed K e (pInstanceData m)"
  shows "state (fst (boot_setup_pmp_complete_handler K e img m)) = state m"
  using assms check_for_ipi_acks_aux_clear [of K "pInstanceData m" e]
  by (auto simp: boot_setup_pmp_complete_handler_def split: prod.splits)

text \<open>
  What does hold in the SetupPMPComplete state. Once more than one second has passed
  since the start time, the handler frees every auxiliary slot and the primary slot it
  holds and moves to Error; before that, when every slot it holds is reported complete, it
  moves to Complete if the target's \<^verbatim>\<open>SKIP_AUTOBOOT\<close> flag is set and to ZeroInit
  otherwise. For the machine as the SetupPMP state hands it over, the start time is the
  time the Init handler started the boot, and the handler stays in SetupPMPComplete
  before the timeout while the slot index it holds is not reported complete; on that path
  \<^verbatim>\<open>register_harts\<close> has cleared the auxiliary slots, so only the primary index is polled.
\<close>

lemma setup_pmp_complete_on_entry_path:
  "(HSS_Timer_IsElapsed e (startTime m) (ONE_SEC K) \<longrightarrow>
      (case boot_setup_pmp_complete_handler K e img m of (m', tr) \<Rightarrow>
         state m' = BOOT_ERROR \<and> allocated_slots K (pInstanceData m') = []
         \<and> tr = Ev_log LOG_ERROR ''Timeout'' # map Ev_IPI_MessageFree (allocated_slots K (pInstanceData m))))
   \<and> (\<not> HSS_Timer_IsElapsed e (startTime m) (ONE_SEC K) \<and> acks_observed K e (pInstanceData m) \<longrightarrow>
        state (fst (boot_setup_pmp_complete_handler K e img m)) =
          (if flags (hart img (target (pInstanceData m) - 1)) AND BOOT_FLAG_SKIP_AUTOBOOT K \<noteq> 0
           then BOOT_COMPLETE else BOOT_ZERO_INIT_CHUNKS))
   \<and> (enters_setup_pmp_complete K img e0 mi es m \<longrightarrow>
        startTime m = HSS_GetTime e0
        \<and> (\<not> HSS_Timer_IsElapsed e (startTime m) (ONE_SEC K) \<and> \<not> acks_observed K e (pInstanceData m) \<longrightarrow>
             state (fst (boot_setup_pmp_complete_handler K e img m)) = BOOT_SETUP_PMP_COMPLETE))"
proof (intro conjI impI)
  assume "HSS_Timer_IsElapsed e (startTime m) (ONE_SEC K)"
  then show "case boot_setup_pmp_complete_handler K e img m of (m', tr) \<Rightarrow>
         state m' = BOOT_ERROR \<and> allocated_slots K (pInstanceData m') = []
         \<and> tr = Ev_log LOG_ERROR ''Timeout'' # map Ev_IPI_MessageFree (allocated_slots K (pInstanceData m))"
    using setup_pmp_complete_timeout [of e m K img] by (simp add: BOOT_SETUP_PMP_COMPLETE_TIMEOUT_def)
next
  assume "\<not> HSS_Timer_IsElapsed e (startTime m) (ONE_SEC K) \<and> acks_observed K e (pInstanceData m)"
  then show "state (fst (boot_setup_pmp_complete_handler K e img m)) =
          (if flags (hart img (target (pInstanceData m) - 1)) AND BOOT_FLAG_SKIP_AUTOBOOT K \<noteq> 0
           then BOOT_COMPLETE else BOOT_ZERO_INIT_CHUNKS)"
    using setup_pmp_complete_acked [of e m K img] by (simp add: BOOT_SETUP_PMP_COMPLETE_TIMEOUT_def)
next
  assume "enters_setup_pmp_complete K img e0 mi es m"
  then show "startTime m = HSS_GetTime e0" by (rule enters_setup_pmp_complete_startTime)
next
  assume p: "enters_setup_pmp_complete K img e0 mi es m"
     and "\<not> HSS_Timer_IsElapsed e (startTime m) (ONE_SEC K) \<and> \<not> acks_observed K e (pInstanceData m)"
  then show "state (fst (boot_setup_pmp_complete_handler K e img m)) = BOOT_SETUP_PMP_COMPLETE"
    using setup_pmp_complete_waits [of e m K img] enters_setup_pmp_complete_aux_clear [OF p]
    by (simp add: BOOT_SETUP_PMP_COMPLETE_TIMEOUT_def enters_setup_pmp_complete_def)
qed

lemma setup_pmp_complete_on_entry_path_example:
  "\<exists>m. enters_setup_pmp_complete sample_platform boot_set_image (sample_env 100 True)
          ((boot_service sample_platform 0)\<lparr>state := BOOT_INITIALIZATION\<rparr>)
          [(sample_env 200 True)\<lparr>IPI_MessageDeliver := (\<lambda>_ _ _. True)\<rparr>] m
       \<and> allocated_slots sample_platform (pInstanceData m) = [7]
       \<and> startTime m = 100
       \<and> state (fst (boot_setup_pmp_complete_handler sample_platform (sample_env 300 True)
                        boot_set_image m)) = BOOT_SETUP_PMP_COMPLETE
       \<and> state (fst (boot_setup_pmp_complete_handler sample_platform
                        ((sample_env 300 True)\<lparr>IPI_MessageCheckIfComplete := (\<lambda>_. True)\<rparr>)
                        boot_set_image m)) = BOOT_ZERO_INIT_CHUNKS
       \<and> (case boot_setup_pmp_complete_handler sample_platform (sample_env 1000101 True)
                  boot_set_image m of
             (m', tr) \<Rightarrow> state m' = BOOT_ERROR \<and> allocated_slots sample_platform (pInstanceData m') = []
                          \<and> tr = [Ev_log LOG_ERROR ''Timeout'', Ev_IPI_MessageFree 7])"
proof -
  have "\<exists>m. enters_setup_pmp_complete sample_platform boot_set_image (sample_env 100 True)
          ((boot_service sample_platform 0)\<lparr>state := BOOT_INITIALIZATION\<rparr>)
          [(sample_env 200 True)\<lparr>IPI_MessageDeliver := (\<lambda>_ _ _. True)\<rparr>] m
       \<and> allocated_slots sample_platform (pInstanceData m) = [7]
       \<and> flags (hart boot_set_image (target (pInstanceData m) - 1)) = 0"
    by (simp add: enters_setup_pmp_complete_def boot_setup_pmp_onEntry_def boot_init_handler_def
          register_harts_def register_harts_peer_def primary_boot_hart_def boot_setup_pmp_handler_def
          HSS_Boot_PMPSetupRequest_def allocated_slots_def boot_set_image_def sample_defs Let_def)
  then obtain m where
    en: "enters_setup_pmp_complete sample_platform boot_set_image (sample_env 100 True)
          ((boot_service sample_platform 0)\<lparr>state := BOOT_INITIALIZATION\<rparr>)
          [(sample_env 200 True)\<lparr>IPI_MessageDeliver := (\<lambda>_ _ _. True)\<rparr>] m"
    and sl: "allocated_slots sample_platform (pInstanceData m) = [7]"
    and fl: "flags (hart boot_set_image (target (pInstanceData m) - 1)) = 0"
    by blast
  note inst = setup_pmp_complete_on_entry_path
      [of _ m sample_platform boot_set_image "sample_env 100 True"
          "(boot_service sample_platform 0)\<lparr>state := BOOT_INITIALIZATION\<rparr>"
          "[(sample_env 200 True)\<lparr>IPI_MessageDeliver := (\<lambda>_ _ _. True)\<rparr>]"]
  from inst [of "sample_env 300 True"] en have st: "startTime m = 100"
    by (simp add: sample_env_def)
  have one: "ONE_SEC sample_platform = 1000000" by (simp add: sample_platform_def)
  from inst [of "sample_env 300 True"] en st sl one
  have waits: "state (fst (boot_setup_pmp_complete_handler sample_platform (sample_env 300 True)
                        boot_set_image m)) = BOOT_SETUP_PMP_COMPLETE"
    by (simp add: HSS_Timer_IsElapsed_def acks_observed_def sample_env_def)
  from inst [of "(sample_env 300 True)\<lparr>IPI_MessageCheckIfComplete := (\<lambda>_. True)\<rparr>"] st sl fl one
  have goes: "state (fst (boot_setup_pmp_complete_handler sample_platform
                        ((sample_env 300 True)\<lparr>IPI_MessageCheckIfComplete := (\<lambda>_. True)\<rparr>)
                        boot_set_image m)) = BOOT_ZERO_INIT_CHUNKS"
    by (simp add: HSS_Timer_IsElapsed_def acks_observed_def sample_env_def)
  from inst [of "sample_env 1000101 True"] st sl one
  have late: "case boot_setup_pmp_complete_handler sample_platform (sample_env 1000101 True)
                  boot_set_image m of
             (m', tr) \<Rightarrow> state m' = BOOT_ERROR \<and> allocated_slots sample_platform (pInstanceData m') = []
                          \<and> tr = [Ev_log LOG_ERROR ''Timeout'', Ev_IPI_MessageFree 7]"
    by (simp add: HSS_Timer_IsElapsed_def sample_env_def)
  show ?thesis
    apply (rule exI [of _ m])
    apply (intro conjI)
         apply (rule en)
        apply (rule sl)
       apply (rule st)
      apply (rule waits)
     apply (rule goes)
    apply (rule late)
    done
qed

text \<open>
  After a failed first delivery of the PMP setup message the machine arrives in
  SetupPMPComplete with a primary index whose slot is already freed: the message was never
  delivered, and the state polls (and on completion or timeout frees again) a slot it does
  not hold.
\<close>

lemma failed_pmp_delivery_leaves_stale_index:
  "(case failed_pmp_delivery_run of
      Inl f \<Rightarrow> False
    | Inr (m, tr) \<Rightarrow>
        state m = BOOT_SETUP_PMP_COMPLETE \<and> msgIndex (pInstanceData m) = 7
        \<and> tr = [Ev_BOOT_FAIL_CR 0, Ev_HSS_PerfCtr_Allocate,
                 Ev_mpfs_domains_register_hart 1 1, Ev_mpfs_domains_register_hart 2 1,
                 Ev_log LOG_NORMAL ''Registering domain'',
                 Ev_mpfs_domains_register_boot_hart ''u54'' 6 1 1 0x81000000 0 0 0,
                 Ev_IPI_MessageAlloc 7, Ev_IPI_MessageDeliver 7 1 IPI_MSG_PMP_SETUP 0 0 0,
                 Ev_log LOG_NORMAL ''failed to send message, so freeing'',
                 Ev_IPI_MessageFree 7]
        \<and> (case boot_setup_pmp_complete_handler sample_platform (env_ok 40) boot_set_image m of
              (m', tr') \<Rightarrow> state m' = BOOT_ZERO_INIT_CHUNKS \<and> tr' = [Ev_IPI_MessageFree 7]))"
  by (simp add: failed_pmp_delivery_run_def env_ok_def boot_init_handler_def boot_setup_pmp_onEntry_def
        boot_setup_pmp_handler_def HSS_Boot_PMPSetupRequest_def boot_setup_pmp_complete_handler_def
        HSS_Timer_IsElapsed_def BOOT_SETUP_PMP_COMPLETE_TIMEOUT_def check_for_ipi_acks_def
        ack_poll_aux_def free_msg_index_def free_msg_index_aux_def register_harts_def
        register_harts_peer_def primary_boot_hart_def boot_set_image_def sample_defs Let_def)


subsection \<open>Boot-sets and the primary hart\<close>

text \<open>
  Claim C7 as stated fails: the machine that acts as primary is not the lowest-indexed
  member of the boot-set but the one whose own hart has the chunks. In the image below
  harts 1 and 2 form a boot-set whose lowest member is hart 1; the machine of hart 2
  registers the harts and the domain, the machine of hart 1 registers nothing.
\<close>

theorem lowest_member_is_not_primary_counterexample:
  "boot_set second_hart_image 2 = [1, 2] \<and> lowest_member second_hart_image 2 = 1
   \<and> entryPoint (hart second_hart_image 0) \<noteq> 0
   \<and> snd (register_harts sample_platform second_hart_image (boot_service sample_platform 1)) =
        [Ev_mpfs_domains_register_hart 1 2, Ev_mpfs_domains_register_hart 2 2,
         Ev_log LOG_NORMAL ''Registering domain'',
         Ev_mpfs_domains_register_boot_hart ''u54'' 6 2 1 0x81000000 0 0 0]
   \<and> snd (register_harts sample_platform second_hart_image (boot_service sample_platform 0)) = []"
  by (simp add: boot_set_def lowest_member_def register_harts_def register_harts_peer_def
        primary_boot_hart_def second_hart_image_def sample_defs Let_def)

text \<open>
  A machine whose own hart has no chunks or no entry point makes no registry call and
  delivers nothing; a primary machine registers the domain under its own hart, and what
  its OpenSBIInit handler delivers goes to another hart of its boot-set.
\<close>

lemma non_primary_registers_nothing:
  assumes "\<not> primary_boot_hart img (target (pInstanceData m))"
  shows "snd (register_harts K img m) = []"
  using assms
  by (simp add: register_harts_def register_harts_peer_def hart_id_defs Let_def)

lemma non_primary_delivers_nothing:
  assumes "\<not> primary_boot_hart img (target (pInstanceData m))"
  shows "boot_opensbi_init_handler K e img m = Inr (m, [])"
  using assms by (simp add: boot_opensbi_init_handler_def Let_def)

lemma primary_registers_domain:
  assumes "primary_boot_hart img (target (pInstanceData m))"
      and "flags (hart img (target (pInstanceData m) - 1)) AND BOOT_FLAG_SKIP_OPENSBI K = 0"
  shows "\<exists>hm arg. last (snd (register_harts K img m)) =
           Ev_mpfs_domains_register_boot_hart (name (hart img (target (pInstanceData m) - 1))) hm
             (target (pInstanceData m)) (privMode (hart img (target (pInstanceData m) - 1)))
             (entryPoint (hart img (target (pInstanceData m) - 1))) arg
             (flags (hart img (target (pInstanceData m) - 1)) AND BOOT_FLAG_ALLOW_COLD_REBOOT K)
             (flags (hart img (target (pInstanceData m) - 1)) AND BOOT_FLAG_ALLOW_WARM_REBOOT K)"
  using assms
  by (simp add: register_harts_def Let_def split: prod.splits)

lemma deliveries_go_to_boot_set_peers:
  assumes "boot_opensbi_init_handler K e img m = Inr (m', tr)"
      and "Ev_IPI_MessageDeliver idx p msg pm ep anc \<in> set tr"
  shows "primary_boot_hart img (target (pInstanceData m))
         \<and> p \<in> set (boot_set img (target (pInstanceData m)))
         \<and> p \<noteq> target (pInstanceData m)
         \<and> ep = entryPoint (hart img (target (pInstanceData m) - 1))"
  using assms
  by (auto simp: boot_opensbi_init_handler_def common_boot_message_delivery_def boot_set_def Let_def
        split: if_splits sum.splits option.splits prod.splits)

text \<open>
  Claim C7, amended. A machine acts as primary exactly when its own hart descriptor has a
  non-zero \<^verbatim>\<open>numChunks\<close> and a non-zero \<^verbatim>\<open>entryPoint\<close>. A machine that is not primary
  makes no call to the domain registry in \<^verbatim>\<open>register_harts\<close> and its OpenSBIInit handler
  delivers nothing and changes nothing. A primary machine whose hart does not skip OpenSBI
  registers the domain with its own hart as the boot hart, and every message its
  OpenSBIInit handler delivers goes to a hart other than itself that shares its entry
  point, with that entry point.
\<close>

theorem primary_is_the_hart_with_chunks:
  "(\<not> primary_boot_hart img (target (pInstanceData m)) \<longrightarrow>
      snd (register_harts K img m) = [] \<and> boot_opensbi_init_handler K e img m = Inr (m, []))
   \<and> (primary_boot_hart img (target (pInstanceData m))
        \<and> flags (hart img (target (pInstanceData m) - 1)) AND BOOT_FLAG_SKIP_OPENSBI K = 0 \<longrightarrow>
       (\<exists>hm arg. last (snd (register_harts K img m)) =
           Ev_mpfs_domains_register_boot_hart (name (hart img (target (pInstanceData m) - 1))) hm
             (target (pInstanceData m)) (privMode (hart img (target (pInstanceData m) - 1)))
             (entryPoint (hart img (target (pInstanceData m) - 1))) arg
             (flags (hart img (target (pInstanceData m) - 1)) AND BOOT_FLAG_ALLOW_COLD_REBOOT K)
             (flags (hart img (target (pInstanceData m) - 1)) AND BOOT_FLAG_ALLOW_WARM_REBOOT K)))
   \<and> (boot_opensbi_init_handler K e img m = Inr (m', tr)
        \<and> Ev_IPI_MessageDeliver idx p msg pm ep anc \<in> set tr \<longrightarrow>
       primary_boot_hart img (target (pInstanceData m))
       \<and> p \<in> set (boot_set img (target (pInstanceData m)))
       \<and> p \<noteq> target (pInstanceData m)
       \<and> ep = entryPoint (hart img (target (pInstanceData m) - 1)))"
proof -
  have a: "\<not> primary_boot_hart img (target (pInstanceData m)) \<longrightarrow>
      snd (register_harts K img m) = [] \<and> boot_opensbi_init_handler K e img m = Inr (m, [])"
    by (simp add: non_primary_registers_nothing non_primary_delivers_nothing)
  have b: "primary_boot_hart img (target (pInstanceData m))
        \<and> flags (hart img (target (pInstanceData m) - 1)) AND BOOT_FLAG_SKIP_OPENSBI K = 0 \<longrightarrow>
       (\<exists>hm arg. last (snd (register_harts K img m)) =
           Ev_mpfs_domains_register_boot_hart (name (hart img (target (pInstanceData m) - 1))) hm
             (target (pInstanceData m)) (privMode (hart img (target (pInstanceData m) - 1)))
             (entryPoint (hart img (target (pInstanceData m) - 1))) arg
             (flags (hart img (target (pInstanceData m) - 1)) AND BOOT_FLAG_ALLOW_COLD_REBOOT K)
             (flags (hart img (target (pInstanceData m) - 1)) AND BOOT_FLAG_ALLOW_WARM_REBOOT K))"
    using primary_registers_domain [of img m K] by (intro impI) (elim conjE)
  have c: "boot_opensbi_init_handler K e img m = Inr (m', tr)
        \<and> Ev_IPI_MessageDeliver idx p msg pm ep anc \<in> set tr \<longrightarrow>
       primary_boot_hart img (target (pInstanceData m))
       \<and> p \<in> set (boot_set img (target (pInstanceData m)))
       \<and> p \<noteq> target (pInstanceData m)
       \<and> ep = entryPoint (hart img (target (pInstanceData m) - 1))"
    using deliveries_go_to_boot_set_peers [of K e img m m' tr idx p msg pm ep anc]
    by (intro impI) (elim conjE)
  from a b c show ?thesis by (intro conjI)
qed

theorem primary_is_the_hart_with_chunks_witness:
  "\<not> primary_boot_hart second_hart_image (target (pInstanceData (boot_service sample_platform 0)))
   \<and> snd (register_harts sample_platform second_hart_image (boot_service sample_platform 0)) = []
   \<and> boot_opensbi_init_handler sample_platform (sample_env 0 True) second_hart_image
        (boot_service sample_platform 0) = Inr (boot_service sample_platform 0, [])
   \<and> primary_boot_hart second_hart_image (target (pInstanceData (boot_service sample_platform 1)))
   \<and> (\<exists>hm arg. last (snd (register_harts sample_platform second_hart_image (boot_service sample_platform 1)))
          = Ev_mpfs_domains_register_boot_hart ''u54'' hm 2 1 0x81000000 arg 0 0)
   \<and> (\<exists>m'. boot_opensbi_init_handler sample_platform (sample_env 0 True) second_hart_image
               (boot_service sample_platform 1)
             = Inr (m', [Ev_IPI_MessageAlloc 7,
                         Ev_IPI_MessageDeliver 7 1 IPI_MSG_OPENSBI_INIT 1 0x81000000 0,
                         Ev_log LOG_ERROR ''sbi_init failed'']))
   \<and> 1 \<in> set (boot_set second_hart_image 2)"
proof -
  have np: "\<not> primary_boot_hart second_hart_image (target (pInstanceData (boot_service sample_platform 0)))"
    by (simp add: primary_boot_hart_def second_hart_image_def sample_defs)
  have pr: "primary_boot_hart second_hart_image (target (pInstanceData (boot_service sample_platform 1)))"
    by (simp add: primary_boot_hart_def second_hart_image_def sample_defs)
  have fl: "flags (hart second_hart_image (target (pInstanceData (boot_service sample_platform 1)) - 1))
              AND BOOT_FLAG_SKIP_OPENSBI sample_platform = 0"
    by (simp add: second_hart_image_def sample_defs)
  have t2: "target (pInstanceData (boot_service sample_platform 1)) = 2"
    by (simp add: sample_defs)
  have h2: "hart second_hart_image (2 - 1) = sample_hart 0x81000000 1"
    by (simp add: second_hart_image_def sample_defs)
  have run: "\<exists>m'. boot_opensbi_init_handler sample_platform (sample_env 0 True) second_hart_image
               (boot_service sample_platform 1)
             = Inr (m', [Ev_IPI_MessageAlloc 7,
                         Ev_IPI_MessageDeliver 7 1 IPI_MSG_OPENSBI_INIT 1 0x81000000 0,
                         Ev_log LOG_ERROR ''sbi_init failed''])"
    by (simp add: boot_opensbi_init_handler_def common_boot_message_delivery_def primary_boot_hart_def
          second_hart_image_def sample_defs Let_def)
  then obtain m' where r: "boot_opensbi_init_handler sample_platform (sample_env 0 True) second_hart_image
               (boot_service sample_platform 1)
             = Inr (m', [Ev_IPI_MessageAlloc 7,
                         Ev_IPI_MessageDeliver 7 1 IPI_MSG_OPENSBI_INIT 1 0x81000000 0,
                         Ev_log LOG_ERROR ''sbi_init failed''])" by blast
  from primary_is_the_hart_with_chunks
         [of second_hart_image "boot_service sample_platform 0" sample_platform "sample_env 0 True"] np
  have a: "snd (register_harts sample_platform second_hart_image (boot_service sample_platform 0)) = []"
    and b: "boot_opensbi_init_handler sample_platform (sample_env 0 True) second_hart_image
              (boot_service sample_platform 0) = Inr (boot_service sample_platform 0, [])"
    by blast+
  have nm: "name (hart second_hart_image (2 - 1)) = ''u54''"
    and pm: "privMode (hart second_hart_image (2 - 1)) = 1"
    and ep: "entryPoint (hart second_hart_image (2 - 1)) = 0x81000000"
    and cold: "flags (hart second_hart_image (2 - 1)) AND BOOT_FLAG_ALLOW_COLD_REBOOT sample_platform = 0"
    and warm: "flags (hart second_hart_image (2 - 1)) AND BOOT_FLAG_ALLOW_WARM_REBOOT sample_platform = 0"
    by (simp_all add: second_hart_image_def sample_defs)
  note dom = primary_is_the_hart_with_chunks
      [of second_hart_image "boot_service sample_platform 1" sample_platform,
       THEN conjunct2, THEN conjunct1, THEN mp, OF conjI [OF pr fl]]
  have c: "\<exists>hm arg. last (snd (register_harts sample_platform second_hart_image (boot_service sample_platform 1)))
          = Ev_mpfs_domains_register_boot_hart ''u54'' hm 2 1 0x81000000 arg 0 0"
    using dom unfolding t2 nm pm ep cold warm .
  have mem: "Ev_IPI_MessageDeliver 7 1 IPI_MSG_OPENSBI_INIT 1 0x81000000 0
               \<in> set [Ev_IPI_MessageAlloc 7,
                         Ev_IPI_MessageDeliver 7 1 IPI_MSG_OPENSBI_INIT 1 0x81000000 0,
                         Ev_log LOG_ERROR ''sbi_init failed'']"
    by simp
  note del = primary_is_the_hart_with_chunks
      [of second_hart_image "boot_service sample_platform 1" sample_platform "sample_env 0 True"
          m' "[Ev_IPI_MessageAlloc 7,
               Ev_IPI_MessageDeliver 7 1 IPI_MSG_OPENSBI_INIT 1 0x81000000 0,
               Ev_log LOG_ERROR ''sbi_init failed'']" 7 1 IPI_MSG_OPENSBI_INIT 1 "0x81000000" 0,
       THEN conjunct2, THEN conjunct2, THEN mp, OF conjI [OF r mem]]
  have d: "1 \<in> set (boot_set second_hart_image 2)"
    using del unfolding t2 by (elim conjE)
  show ?thesis
    apply (intro conjI)
          apply (rule np)
         apply (rule a)
        apply (rule b)
       apply (rule pr)
      apply (rule c)
     apply (rule run)
    apply (rule d)
    done
qed

end
